theory Spec2Isabelle
  imports Main "HOL-Library.AList"
begin

section \<open>Errors (pkg/errors.go, session.ErrQueueNotOpened, context errors)\<close>

text \<open>
  The package-level error variables are sentinels compared by identity through
  \<open>errors.Is\<close>. \<open>errors.New\<close> and \<open>fmt.Errorf\<close> without \<open>%w\<close> give an error
  that wraps nothing; \<open>fmt.Errorf\<close> with one \<open>%w\<close> gives an error that wraps its
  argument. The string carried by \<open>errors_New\<close> and \<open>fmt_Errorf\<close> is the formatted
  text, which is what \<open>Error()\<close> returns.
\<close>

datatype sentinel =
    ErrClientNotSupport
  | ErrServerNotSupport
  | ErrRequestInvalid
  | ErrLackResponseChan
  | ErrDuplicateResponseReceived
  | ErrMethodNotSupport
  | ErrJSONUnmarshal
  | ErrSessionHasNotInitialized
  | ErrLackSession
  | ErrSessionClosed
  | ErrSendEOF
  | ErrQueueNotOpened
  | ContextCanceled
  | ContextDeadlineExceeded

fun sentinel_text :: "sentinel \<Rightarrow> string" where
  "sentinel_text ErrClientNotSupport = ''this feature client not support''"
| "sentinel_text ErrServerNotSupport = ''this feature server not support''"
| "sentinel_text ErrRequestInvalid = ''request invalid''"
| "sentinel_text ErrLackResponseChan = ''lack response chan''"
| "sentinel_text ErrDuplicateResponseReceived = ''duplicate response received''"
| "sentinel_text ErrMethodNotSupport = ''method not support''"
| "sentinel_text ErrJSONUnmarshal = ''json unmarshal error''"
| "sentinel_text ErrSessionHasNotInitialized = ''the session has not been initialized''"
| "sentinel_text ErrLackSession = ''lack session''"
| "sentinel_text ErrSessionClosed = ''session closed''"
| "sentinel_text ErrSendEOF = ''send EOF''"
| "sentinel_text ErrQueueNotOpened = ''queue has not been opened''"
| "sentinel_text ContextCanceled = ''context canceled''"
| "sentinel_text ContextDeadlineExceeded = ''context deadline exceeded''"

text \<open>\<open>strconv.FormatInt(i, 10)\<close>, also what \<open>%d\<close> prints.\<close>

fun digits_of :: "nat \<Rightarrow> string" where
  "digits_of n =
     (if n < 10 then [''0123456789'' ! n]
      else digits_of (n div 10) @ [''0123456789'' ! (n mod 10)])"

declare digits_of.simps [simp del]

definition FormatInt :: "int \<Rightarrow> string" where
  "FormatInt i = (if i < 0 then ''-'' @ digits_of (nat (- i)) else digits_of (nat i))"

text \<open>
  \<open>ResponseError\<close> is \<open>pkg.ResponseError\<close>: code, message and data; the data, an
  \<open>interface{}\<close>, is kept as the text \<open>%+v\<close> prints for it (\<open>None\<close> for nil).
\<close>

datatype error =
    Sentinel sentinel
  | errors_New string
  | fmt_Errorf string error
  | ResponseError int string "string option"

fun Error_text :: "error \<Rightarrow> string" where
  "Error_text (Sentinel s) = sentinel_text s"
| "Error_text (errors_New m) = m"
| "Error_text (fmt_Errorf m e) = m"
| "Error_text (ResponseError code message data) =
     ''code='' @ FormatInt code @ '' message='' @ message @ '' data='' @
     (case data of None \<Rightarrow> ''<nil>'' | Some t \<Rightarrow> t)"

fun errors_Is :: "error \<Rightarrow> sentinel \<Rightarrow> bool" where
  "errors_Is (Sentinel s) t = (s = t)"
| "errors_Is (errors_New m) t = False"
| "errors_Is (fmt_Errorf m e) t = errors_Is e t"
| "errors_Is (ResponseError code message data) t = False"

text \<open>\<open>fmt.Errorf("%w: <rest>", sentinel, ...)\<close>: the text starts with the sentinel's text.\<close>

definition wrap_sentinel :: "sentinel \<Rightarrow> string \<Rightarrow> error" where
  "wrap_sentinel s rest = fmt_Errorf (sentinel_text s @ '': '' @ rest) (Sentinel s)"

section \<open>Outcomes of calls that may suspend\<close>

text \<open>
  A channel operation without a ready case suspends the caller until another task acts;
  a send on a closed channel panics. Both are outcomes of the model.
\<close>

datatype 'a outcome = Returns 'a | Blocks | Panics

text \<open>
  A context at the moment of a \<open>select\<close>: \<open>None\<close> when \<open>ctx.Done()\<close> is not closed,
  \<open>Some e\<close> when it is closed and \<open>ctx.Err()\<close> is \<open>e\<close>.
\<close>

type_synonym ctx = "error option"

text \<open>A byte slice; \<open>None\<close> is the nil slice.\<close>

type_synonym bytes = "string option"

section \<open>Buffered channels\<close>

record 'a chan =
  buf :: "'a list"
  cap :: nat
  chan_closed :: bool

definition make_chan :: "nat \<Rightarrow> 'a chan" where
  "make_chan n = \<lparr>buf = [], cap = n, chan_closed = False\<rparr>"

definition close_chan :: "'a chan \<Rightarrow> 'a chan" where
  "close_chan ch = ch\<lparr>chan_closed := True\<rparr>"

section \<open>JSON-RPC envelope (protocol/jsonrpc.go)\<close>

definition jsonrpcVersion :: string where
  "jsonrpcVersion = ''2.0''"

definition InvalidParams :: int where "InvalidParams = -32602"

text \<open>
  \<open>RequestID\<close> is \<open>interface{}\<close>: nil, a string, or (decoded from a JSON number) a
  float64. A number is represented by the text \<open>%v\<close> prints for it, which is all the
  dispatcher uses of it (\<open>fmt.Sprint\<close>).
\<close>

datatype RequestID = IDNil | IDString string | IDNumber string

fun fmt_Sprint :: "RequestID \<Rightarrow> string" where
  "fmt_Sprint IDNil = ''<nil>''"
| "fmt_Sprint (IDString s) = s"
| "fmt_Sprint (IDNumber t) = t"

text \<open>
  For an envelope decoded from a message, the \<open>RawParams\<close> field holds the raw
  parameter bytes; for one built here to be sent, it holds the JSON of the \<open>Params\<close>
  value.
\<close>

record JSONRPCRequest =
  req_JSONRPC :: string
  req_ID :: RequestID
  req_Method :: string
  req_RawParams :: bytes


record responseErr =
  err_Code :: int
  err_Message :: string
  err_Data :: "string option"

text \<open>
  A response. \<open>resp_Result\<close> is the \<open>Result\<close> field: the handler's result value when
  the response is built here, and \<open>None\<close> when the field is nil.
\<close>

record 'r JSONRPCResponse =
  resp_JSONRPC :: string
  resp_ID :: RequestID
  resp_Result :: "'r option"
  resp_RawResult :: bytes
  resp_Error :: "responseErr option"

record JSONRPCNotification =
  ntf_JSONRPC :: string
  ntf_Method :: string
  ntf_RawParams :: bytes

definition NewJSONRPCRequest :: "RequestID \<Rightarrow> string \<Rightarrow> bytes \<Rightarrow> JSONRPCRequest" where
  "NewJSONRPCRequest rid method params =
     \<lparr>req_JSONRPC = jsonrpcVersion, req_ID = rid, req_Method = method, req_RawParams = params\<rparr>"

definition NewJSONRPCNotification :: "string \<Rightarrow> bytes \<Rightarrow> JSONRPCNotification" where
  "NewJSONRPCNotification method params =
     \<lparr>ntf_JSONRPC = jsonrpcVersion, ntf_Method = method, ntf_RawParams = params\<rparr>"



section \<open>Session state (package session, State)\<close>

text \<open>
  Times are nanoseconds on one clock, durations are nanoseconds; \<open>Time.Sub\<close> saturates
  at the bounds of \<open>int64\<close>.
\<close>

definition maxDuration :: int where "maxDuration = 2 ^ 63 - 1"
definition minDuration :: int where "minDuration = - (2 ^ 63)"

definition time_Sub :: "int \<Rightarrow> int \<Rightarrow> int" where
  "time_Sub t u =
     (let d = t - u in
      if d > maxDuration then maxDuration
      else if d < minDuration then minDuration
      else d)"

text \<open>\<open>atomic.AddInt64\<close>: addition that wraps in 64 bits.\<close>

definition AddInt64 :: "int \<Rightarrow> int \<Rightarrow> int" where
  "AddInt64 a b = (a + b + 2 ^ 63) mod 2 ^ 64 - 2 ^ 63"

record 'r State =
  lastActiveAt :: int
  sendChan :: "bytes chan option"
  requestID :: int
  reqID2respChan :: "(string \<times> 'r JSONRPCResponse chan) list"
  subscribedResources :: "string list"
  receivedInitRequest :: bool
  ready :: bool
  closed :: bool

definition NewState :: "int \<Rightarrow> 'r State" where
  "NewState now =
     \<lparr>lastActiveAt = now, sendChan = None, requestID = 0, reqID2respChan = [],
      subscribedResources = [], receivedInitRequest = False, ready = False,
      closed = False\<rparr>"



definition IncRequestID :: "'r State \<Rightarrow> int \<times> 'r State" where
  "IncRequestID s = (AddInt64 (requestID s) 1, s\<lparr>requestID := AddInt64 (requestID s) 1\<rparr>)"

definition Close :: "'r State \<Rightarrow> 'r State" where
  "Close s =
     (let s1 = s\<lparr>closed := True\<rparr> in
      case sendChan s1 of
        None \<Rightarrow> s1
      | Some ch \<Rightarrow> s1\<lparr>sendChan := Some (close_chan ch)\<rparr>)"

definition updateLastActiveAt :: "int \<Rightarrow> 'r State \<Rightarrow> 'r State" where
  "updateLastActiveAt now s = s\<lparr>lastActiveAt := now\<rparr>"

definition openMessageQueueForSend :: "'r State \<Rightarrow> 'r State" where
  "openMessageQueueForSend s =
     (case sendChan s of
        None \<Rightarrow> s\<lparr>sendChan := Some (make_chan 64)\<rparr>
      | Some ch \<Rightarrow> s)"

text \<open>
  \<open>enqueueMessage\<close>: the \<open>closed\<close> check, the nil check, then a \<open>select\<close> between the
  send and \<open>ctx.Done()\<close>. When both cases are ready Go picks one at random: \<open>pick\<close> is
  that choice (\<open>True\<close> takes the channel case).
\<close>

definition enqueueMessage ::
  "ctx \<Rightarrow> bool \<Rightarrow> bytes \<Rightarrow> 'r State \<Rightarrow> (error option \<times> 'r State) outcome" where
  "enqueueMessage c pick message s =
     (if closed s then Returns (Some (errors_New ''session already closed''), s)
      else case sendChan s of
        None \<Rightarrow> Returns (Some (Sentinel ErrQueueNotOpened), s)
      | Some ch \<Rightarrow>
          (let can_send = chan_closed ch \<or> length (buf ch) < cap ch;
               do_send =
                 (if chan_closed ch then Panics
                  else Returns (None, s\<lparr>sendChan := Some (ch\<lparr>buf := buf ch @ [message]\<rparr>)\<rparr>))
           in case c of
                None \<Rightarrow> if can_send then do_send else Blocks
              | Some e \<Rightarrow> if can_send \<and> pick then do_send else Returns (Some e, s)))"

text \<open>
  \<open>dequeueMessage\<close>: the nil check, then a \<open>select\<close> between \<open>ctx.Done()\<close> and the
  receive. A receive is ready when the buffer holds a message or the channel is closed;
  from a closed, empty channel it yields \<open>(nil, false)\<close>.
\<close>

definition chan_recv :: "'a chan \<Rightarrow> ('a option \<times> bool) \<times> 'a chan" where
  "chan_recv ch =
     (case buf ch of
        [] \<Rightarrow> ((None, False), ch)
      | m # rest \<Rightarrow> ((Some m, True), ch\<lparr>buf := rest\<rparr>))"

definition dequeueMessage ::
  "ctx \<Rightarrow> bool \<Rightarrow> 'r State \<Rightarrow> ((bytes \<times> error option) \<times> 'r State) outcome" where
  "dequeueMessage c pick s =
     (case sendChan s of
        None \<Rightarrow> Returns ((None, Some (Sentinel ErrQueueNotOpened)), s)
      | Some ch \<Rightarrow>
          (let can_recv = buf ch \<noteq> [] \<or> chan_closed ch;
               do_recv =
                 (case chan_recv ch of
                    ((m, ok), ch') \<Rightarrow>
                      (let msg = (case m of None \<Rightarrow> None | Some b \<Rightarrow> b) in
                       if msg = None \<and> \<not> ok
                       then Returns ((None, Some (Sentinel ErrSendEOF)), s\<lparr>sendChan := Some ch'\<rparr>)
                       else Returns ((msg, None), s\<lparr>sendChan := Some ch'\<rparr>)))
           in case c of
                Some e \<Rightarrow> if can_recv \<and> pick then do_recv else Returns ((None, Some e), s)
              | None \<Rightarrow> if can_recv then do_recv else Blocks))"


section \<open>Session manager (server/session/manager.go)\<close>

text \<open>
  \<open>pkg.SyncMap\<close> is a map from string keys; it is modelled as an association list, so
  that \<open>Range\<close> has an order to visit. \<open>closedSessions\<close> holds \<open>struct{}\<close> values, so
  only its keys are kept. The detection callback and the clock are arguments of the
  operations that use them.
\<close>

record 'r Manager =
  activeSessions :: "(string \<times> 'r State) list"
  closedSessions :: "string list"
  maxIdleTime :: int


definition SetMaxIdleTime :: "int \<Rightarrow> 'r Manager \<Rightarrow> 'r Manager" where
  "SetMaxIdleTime d m = m\<lparr>maxIdleTime := d\<rparr>"

text \<open>\<open>CreateSession\<close>; \<open>uuid\<close> is the string \<open>uuid.NewString()\<close> returned.\<close>

definition CreateSession :: "string \<Rightarrow> int \<Rightarrow> 'r Manager \<Rightarrow> string \<times> 'r Manager" where
  "CreateSession uuid now m =
     (uuid, m\<lparr>activeSessions := AList.update uuid (NewState now) (activeSessions m)\<rparr>)"

definition IsActiveSession :: "string \<Rightarrow> 'r Manager \<Rightarrow> bool" where
  "IsActiveSession sessionID m = (map_of (activeSessions m) sessionID \<noteq> None)"

definition IsClosedSession :: "string \<Rightarrow> 'r Manager \<Rightarrow> bool" where
  "IsClosedSession sessionID m = (sessionID \<in> set (closedSessions m))"

definition GetSession :: "string \<Rightarrow> 'r Manager \<Rightarrow> 'r State option" where
  "GetSession sessionID m =
     (if sessionID = '''' then None else map_of (activeSessions m) sessionID)"

definition OpenMessageQueueForSend :: "string \<Rightarrow> 'r Manager \<Rightarrow> error option \<times> 'r Manager" where
  "OpenMessageQueueForSend sessionID m =
     (case GetSession sessionID m of
        None \<Rightarrow> (Some (Sentinel ErrLackSession), m)
      | Some st \<Rightarrow>
          (None, m\<lparr>activeSessions :=
                     AList.update sessionID (openMessageQueueForSend st) (activeSessions m)\<rparr>))"

definition EnqueueMessageForSend ::
  "ctx \<Rightarrow> bool \<Rightarrow> string \<Rightarrow> bytes \<Rightarrow> 'r Manager \<Rightarrow> (error option \<times> 'r Manager) outcome" where
  "EnqueueMessageForSend c pick sessionID message m =
     (case GetSession sessionID m of
        None \<Rightarrow> Returns (Some (Sentinel ErrLackSession), m)
      | Some st \<Rightarrow>
          (case enqueueMessage c pick message st of
             Returns (e, st') \<Rightarrow>
               Returns (e, m\<lparr>activeSessions := AList.update sessionID st' (activeSessions m)\<rparr>)
           | Blocks \<Rightarrow> Blocks
           | Panics \<Rightarrow> Panics))"

definition DequeueMessageForSend ::
  "ctx \<Rightarrow> bool \<Rightarrow> string \<Rightarrow> 'r Manager \<Rightarrow> ((bytes \<times> error option) \<times> 'r Manager) outcome" where
  "DequeueMessageForSend c pick sessionID m =
     (case GetSession sessionID m of
        None \<Rightarrow> Returns ((None, Some (Sentinel ErrLackSession)), m)
      | Some st \<Rightarrow>
          (case dequeueMessage c pick st of
             Returns (r, st') \<Rightarrow>
               Returns (r, m\<lparr>activeSessions := AList.update sessionID st' (activeSessions m)\<rparr>)
           | Blocks \<Rightarrow> Blocks
           | Panics \<Rightarrow> Panics))"

definition UpdateSessionLastActiveAt :: "int \<Rightarrow> string \<Rightarrow> 'r Manager \<Rightarrow> 'r Manager" where
  "UpdateSessionLastActiveAt now sessionID m =
     (case map_of (activeSessions m) sessionID of
        None \<Rightarrow> m
      | Some st \<Rightarrow>
          m\<lparr>activeSessions := AList.update sessionID (updateLastActiveAt now st) (activeSessions m)\<rparr>)"

text \<open>
  \<open>CloseSession\<close>: \<open>LoadAndDelete\<close> from the active map; when the id was there, close its
  state and store the id in the closed map. The closed \<open>State\<close> object leaves the
  manager; \<open>CloseSession_state\<close> is that object after \<open>state.Close()\<close>, as a task still
  holding its pointer sees it.
\<close>

definition CloseSession :: "string \<Rightarrow> 'r Manager \<Rightarrow> 'r Manager" where
  "CloseSession sessionID m =
     (case map_of (activeSessions m) sessionID of
        None \<Rightarrow> m
      | Some st \<Rightarrow>
          m\<lparr>activeSessions := AList.delete sessionID (activeSessions m),
            closedSessions := sessionID # closedSessions m\<rparr>)"

definition CloseSession_state :: "string \<Rightarrow> 'r Manager \<Rightarrow> 'r State option" where
  "CloseSession_state sessionID m = map_option Close (map_of (activeSessions m) sessionID)"

text \<open>\<open>Range\<close> visits the entries present when it starts; each visit closes its own key.\<close>

definition CloseAllSessions :: "'r Manager \<Rightarrow> 'r Manager" where
  "CloseAllSessions m = fold (\<lambda>(sessionID, st). CloseSession sessionID) (activeSessions m) m"

text \<open>
  The retry loop of the heartbeat: \<open>for i := 0; i < 3; i++\<close>, leaving at the first
  attempt that returns nil. \<open>d i\<close> is what the \<open>i\<close>-th call of the detection callback
  returns; the second argument counts the iterations left. The result is \<open>True\<close> when an
  attempt succeeded.
\<close>

fun detection_loop :: "(nat \<Rightarrow> error option) \<Rightarrow> nat \<Rightarrow> nat \<Rightarrow> bool" where
  "detection_loop d i 0 = False"
| "detection_loop d i (Suc k) =
     (case d i of None \<Rightarrow> True | Some e \<Rightarrow> detection_loop d (Suc i) k)"

text \<open>The body of the \<open>Range\<close> callback of one tick, for one session.\<close>

definition heartbeat_visit ::
  "int \<Rightarrow> (string \<Rightarrow> nat \<Rightarrow> error option) \<Rightarrow> string \<times> 'r State \<Rightarrow> 'r Manager \<Rightarrow> 'r Manager" where
  "heartbeat_visit now detection p m =
     (case p of (sessionID, state) \<Rightarrow>
        if maxIdleTime m \<noteq> 0 \<and> time_Sub now (lastActiveAt state) > maxIdleTime m
        then CloseSession sessionID m
        else if detection_loop (detection sessionID) 0 3 then m
        else CloseSession sessionID m)"

definition heartbeat_tick ::
  "int \<Rightarrow> (string \<Rightarrow> nat \<Rightarrow> error option) \<Rightarrow> 'r Manager \<Rightarrow> 'r Manager" where
  "heartbeat_tick now detection m = fold (heartbeat_visit now detection) (activeSessions m) m"

text \<open>The operations of the manager that change it, as one step function.\<close>

datatype mgr_op =
    OpCreateSession string int
  | OpSetMaxIdleTime int
  | OpOpenMessageQueueForSend string
  | OpEnqueueMessageForSend ctx bool string bytes
  | OpDequeueMessageForSend ctx bool string
  | OpUpdateSessionLastActiveAt int string
  | OpCloseSession string
  | OpCloseAllSessions
  | OpHeartbeatTick int "string \<Rightarrow> nat \<Rightarrow> error option"

fun mgr_step :: "mgr_op \<Rightarrow> 'r Manager \<Rightarrow> 'r Manager" where
  "mgr_step (OpCreateSession uuid now) m = snd (CreateSession uuid now m)"
| "mgr_step (OpSetMaxIdleTime d) m = SetMaxIdleTime d m"
| "mgr_step (OpOpenMessageQueueForSend sid) m = snd (OpenMessageQueueForSend sid m)"
| "mgr_step (OpEnqueueMessageForSend c pick sid msg) m =
     (case EnqueueMessageForSend c pick sid msg m of Returns (e, m') \<Rightarrow> m' | Blocks \<Rightarrow> m | Panics \<Rightarrow> m)"
| "mgr_step (OpDequeueMessageForSend c pick sid) m =
     (case DequeueMessageForSend c pick sid m of Returns (r, m') \<Rightarrow> m' | Blocks \<Rightarrow> m | Panics \<Rightarrow> m)"
| "mgr_step (OpUpdateSessionLastActiveAt now sid) m = UpdateSessionLastActiveAt now sid m"
| "mgr_step (OpCloseSession sid) m = CloseSession sid m"
| "mgr_step (OpCloseAllSessions) m = CloseAllSessions m"
| "mgr_step (OpHeartbeatTick now detection) m = heartbeat_tick now detection m"

text \<open>The ids the UUID generator hands out in a run of operations.\<close>

fun created_ids :: "mgr_op list \<Rightarrow> string list" where
  "created_ids [] = []"
| "created_ids (OpCreateSession uuid now # ops) = uuid # created_ids ops"
| "created_ids (_ # ops) = created_ids ops"

section \<open>Streamable-HTTP DELETE (transport/streamable_http_server.go)\<close>



section \<open>Method names\<close>

text \<open>
  Modelled from the spec: the method-name constants of package protocol (\<open>protocol.Ping\<close>,
  \<open>protocol.Initialize\<close>, ...), whose declarations are not among the sources; the
  values are the method names of the protocol surface in the specification.
\<close>

definition Ping :: string where "Ping = ''ping''"
definition Initialize :: string where "Initialize = ''initialize''"
definition ToolsList :: string where "ToolsList = ''tools/list''"
definition NotificationInitialized :: string where
  "NotificationInitialized = ''notifications/initialized''"

section \<open>The JSON libraries\<close>

text \<open>
  \<open>gjson\<close> and \<open>encoding/json\<close> are outside the repository: what they return on a
  message is a parameter of the dispatchers. \<open>gjson_Exists msg path\<close> is
  \<open>gjson.GetBytes(msg, path).Exists()\<close>; the \<open>Unmarshal\<close> fields are \<open>json.Unmarshal\<close>
  into the three envelope types (with their \<open>UnmarshalJSON\<close> methods), \<open>Inl\<close> carrying
  the text of the decoder's error; the \<open>Marshal\<close> fields are \<open>json.Marshal\<close> of
  an envelope.
\<close>

record 'r json_lib =
  gjson_Exists :: "string \<Rightarrow> string \<Rightarrow> bool"
  Unmarshal_Notification :: "string \<Rightarrow> string + JSONRPCNotification"
  Unmarshal_Response :: "string \<Rightarrow> string + 'r JSONRPCResponse"
  Unmarshal_Request :: "string \<Rightarrow> string + JSONRPCRequest"
  Marshal_Response :: "'r JSONRPCResponse \<Rightarrow> string + string"
  Marshal_Request :: "JSONRPCRequest \<Rightarrow> string + string"
  Marshal_Notification :: "JSONRPCNotification \<Rightarrow> string + string"

text \<open>\<open>pkg.JSONUnmarshal\<close> wraps the decoder's error in \<open>ErrJSONUnmarshal\<close>.\<close>

definition JSONUnmarshal :: "(string \<Rightarrow> string + 'a) \<Rightarrow> string \<Rightarrow> error + 'a" where
  "JSONUnmarshal dec data =
     (case dec data of
        Inl e \<Rightarrow> Inl (wrap_sentinel ErrJSONUnmarshal (''data='' @ data @ '', error: '' @ e))
      | Inr v \<Rightarrow> Inr v)"

section \<open>Server dispatch (server/receive.go)\<close>

record 'r Server =
  sessionManager :: "'r Manager"
  inShutdown :: bool
  inFlyRequest :: nat


text \<open>
  A record of which functions a dispatch called, kept beside the result: the three
  \<open>receive...\<close> functions and the handlers (by method name).
\<close>

datatype event = CallReceiveNotify | CallReceiveResponse | CallReceiveRequest | CallHandler string


text \<open>
  Delivery to a reply slot: the non-blocking send \<open>select { case respChan <- response:
  default: }\<close> succeeds when the buffer has room and takes \<open>default\<close> otherwise.
\<close>

definition try_send :: "'a \<Rightarrow> 'a chan \<Rightarrow> 'a chan option" where
  "try_send v ch = (if length (buf ch) < cap ch then Some (ch\<lparr>buf := buf ch @ [v]\<rparr>) else None)"

text \<open>
  \<open>receiveResponse\<close>. In the text of the duplicate error the \<open>%+v\<close> rendering of the
  response struct is left out.
\<close>

definition Server_receiveResponse ::
  "string \<Rightarrow> 'r JSONRPCResponse \<Rightarrow> 'r Server \<Rightarrow> error option \<times> 'r Server" where
  "Server_receiveResponse sessionID response srv =
     (case GetSession sessionID (sessionManager srv) of
        None \<Rightarrow> (Some (Sentinel ErrLackSession), srv)
      | Some s \<Rightarrow>
          (case map_of (reqID2respChan s) (fmt_Sprint (resp_ID response)) of
             None \<Rightarrow>
               (Some (wrap_sentinel ErrLackResponseChan
                        (''sessionID='' @ sessionID @ '', requestID='' @ fmt_Sprint (resp_ID response))),
                srv)
           | Some respChan \<Rightarrow>
               (case try_send response respChan of
                  Some respChan' \<Rightarrow>
                    (None,
                     srv\<lparr>sessionManager := (sessionManager srv)
                           \<lparr>activeSessions :=
                              AList.update sessionID
                                (s\<lparr>reqID2respChan :=
                                     AList.update (fmt_Sprint (resp_ID response)) respChan'
                                       (reqID2respChan s)\<rparr>)
                                (activeSessions (sessionManager srv))\<rparr>\<rparr>)
                | None \<Rightarrow>
                    (Some (wrap_sentinel ErrDuplicateResponseReceived
                             (''sessionID='' @ sessionID @ '', response='')),
                     srv))))"








section \<open>The server's peer-call facade (callClient, server/send.go)\<close>

text \<open>
  The server transport is an interface: \<open>Send\<close> is a parameter, a function of the
  session id, the message and the server (the streamable-HTTP transport enqueues into the
  session's outbox).
\<close>

type_synonym 'r server_send = "string \<Rightarrow> JSONRPCRequest \<Rightarrow> 'r Server \<Rightarrow> error option \<times> 'r Server"

definition Server_sendMsgWithRequest ::
  "'r json_lib \<Rightarrow> 'r server_send \<Rightarrow> string \<Rightarrow> RequestID \<Rightarrow> string \<Rightarrow> bytes \<Rightarrow> 'r Server \<Rightarrow>
   error option \<times> 'r Server" where
  "Server_sendMsgWithRequest lib send sessionID rid method params srv =
     (if rid = IDNil then (Some (errors_New ''requestID can't is nil''), srv)
      else
        (let req = NewJSONRPCRequest rid method params in
         case Marshal_Request lib req of
           Inl e \<Rightarrow> (Some (errors_New e), srv)
         | Inr message \<Rightarrow>
             (case send sessionID req srv of
                (Some err, srv') \<Rightarrow>
                  (Some (fmt_Errorf (''sendRequest: transport send: '' @ Error_text err) err), srv')
              | (None, srv') \<Rightarrow> (None, srv'))))"

text \<open>The reply slot registered under a request id in a session, if any.\<close>

definition reply_slot :: "string \<Rightarrow> string \<Rightarrow> 'r Server \<Rightarrow> 'r JSONRPCResponse chan option" where
  "reply_slot sessionID rid srv =
     (case GetSession sessionID (sessionManager srv) of
        None \<Rightarrow> None
      | Some s \<Rightarrow> map_of (reqID2respChan s) rid)"

text \<open>
  The first part of \<open>callClient\<close>: look the session up, take the next request id from
  its counter, and register a reply channel of capacity 1 under the id's decimal text.
\<close>

definition callClient_register :: "string \<Rightarrow> 'r Server \<Rightarrow> error + string \<times> 'r Server" where
  "callClient_register sessionID srv =
     (case GetSession sessionID (sessionManager srv) of
        None \<Rightarrow> Inl (fmt_Errorf (''callClient: '' @ sentinel_text ErrLackSession) (Sentinel ErrLackSession))
      | Some session \<Rightarrow>
          (case IncRequestID session of
             (n, session1) \<Rightarrow>
               (let rid = FormatInt n;
                    session2 = session1\<lparr>reqID2respChan :=
                                 AList.update rid (make_chan 1) (reqID2respChan session1)\<rparr>
                in Inr (rid,
                        srv\<lparr>sessionManager := (sessionManager srv)
                              \<lparr>activeSessions :=
                                 AList.update sessionID session2
                                   (activeSessions (sessionManager srv))\<rparr>\<rparr>))))"

text \<open>The deferred \<open>Remove(requestID)\<close> on the session's slot map.\<close>

definition remove_slot :: "string \<Rightarrow> string \<Rightarrow> 'r Server \<Rightarrow> 'r Server" where
  "remove_slot sessionID rid srv =
     (case map_of (activeSessions (sessionManager srv)) sessionID of
        None \<Rightarrow> srv
      | Some s \<Rightarrow>
          srv\<lparr>sessionManager := (sessionManager srv)
                \<lparr>activeSessions :=
                   AList.update sessionID
                     (s\<lparr>reqID2respChan := AList.delete rid (reqID2respChan s)\<rparr>)
                     (activeSessions (sessionManager srv))\<rparr>\<rparr>)"

text \<open>
  What reaches the server between the send and the \<open>select\<close> of \<open>callClient\<close> is the
  environment's: \<open>arrivals\<close> are the responses that \<open>receive\<close> hands to
  \<open>receiveResponse\<close> in that time (each with its session id), \<open>c\<close> is the context at the
  \<open>select\<close>, and \<open>pick\<close> the choice when both cases are ready.
\<close>

definition deliver :: "string \<times> 'r JSONRPCResponse \<Rightarrow> 'r Server \<Rightarrow> 'r Server" where
  "deliver a srv = snd (Server_receiveResponse (fst a) (snd a) srv)"

definition response_result :: "'r JSONRPCResponse \<Rightarrow> error + bytes" where
  "response_result response =
     (case resp_Error response of
        Some err \<Rightarrow> Inl (ResponseError (err_Code err) (err_Message err) (err_Data err))
      | None \<Rightarrow> Inr (resp_RawResult response))"

definition callClient ::
  "'r json_lib \<Rightarrow> 'r server_send \<Rightarrow> (string \<times> 'r JSONRPCResponse) list \<Rightarrow> ctx \<Rightarrow> bool \<Rightarrow>
   string \<Rightarrow> string \<Rightarrow> bytes \<Rightarrow> 'r Server \<Rightarrow> ((error + bytes) \<times> 'r Server) outcome" where
  "callClient lib send arrivals c pick sessionID method params srv =
     (case callClient_register sessionID srv of
        Inl err \<Rightarrow> Returns (Inl err, srv)
      | Inr (rid, srv1) \<Rightarrow>
          (case Server_sendMsgWithRequest lib send sessionID (IDString rid) method params srv1 of
             (Some err, srv2) \<Rightarrow>
               Returns (Inl (fmt_Errorf (''callClient: '' @ Error_text err) err),
                        remove_slot sessionID rid srv2)
           | (None, srv2) \<Rightarrow>
               (let srv3 = fold deliver arrivals srv2;
                    ready_resp =
                      (case reply_slot sessionID rid srv3 of
                         Some ch \<Rightarrow> (case buf ch of [] \<Rightarrow> None | r # rest \<Rightarrow> Some r)
                       | None \<Rightarrow> None)
                in case c of
                     Some e \<Rightarrow>
                       (case ready_resp of
                          Some r \<Rightarrow>
                            if pick then Returns (response_result r, remove_slot sessionID rid srv3)
                            else Returns (Inl e, remove_slot sessionID rid srv3)
                        | None \<Rightarrow> Returns (Inl e, remove_slot sessionID rid srv3))
                   | None \<Rightarrow>
                       (case ready_resp of
                          Some r \<Rightarrow> Returns (response_result r, remove_slot sessionID rid srv3)
                        | None \<Rightarrow> Blocks))))"

section \<open>Client (client/receive.go, client/send.go, client/handle.go)\<close>

text \<open>
  \<open>InitializeResult\<close>, with the fields \<open>initialization\<close> reads; the three payloads are
  kept as their JSON text.
\<close>

record InitializeResult =
  ir_ProtocolVersion :: string
  ir_ServerInfo :: string
  ir_Capabilities :: string
  ir_Instructions :: string

text \<open>
  What the client takes from outside \<open>client/\<close>: the decoder of the initialize result,
  the table \<open>protocol.SupportedVersion\<close>, the constant \<open>protocol.Version\<close>, and the
  JSON of the parameters \<open>NewInitializeRequest\<close> and \<open>NewInitializedNotification\<close>
  build (the first from the client's info and capabilities).
\<close>

record client_protocol =
  Unmarshal_InitializeResult :: "string \<Rightarrow> string + InitializeResult"
  SupportedVersion :: "string list"
  Version :: string
  NewInitializeRequest :: "string \<Rightarrow> string \<Rightarrow> bytes"
  NewInitializedNotification :: bytes


record 'r Client =
  c_reqID2respChan :: "(string \<times> 'r JSONRPCResponse chan) list"
  c_requestID :: int
  c_ready :: bool
  initializationMu :: bool
  clientInfo :: string
  clientCapabilities :: string
  serverInfo :: "string option"
  serverCapabilities :: "string option"
  serverInstructions :: string

text \<open>
  The transport and the peer behind it. \<open>send_results\<close> scripts what the successive
  calls of \<open>transport.Send\<close> return (nil once the script is used up); \<open>sent\<close> is the log
  of the messages handed to \<open>Send\<close>, before marshalling; \<open>waits\<close> scripts, for each
  \<open>select\<close> of \<open>callServer\<close> in turn, the responses that \<open>receive\<close> has handed to
  \<open>receiveResponse\<close> by then, the context at that moment, and the choice when both
  cases are ready.
\<close>

datatype 'r message =
    MsgRequest JSONRPCRequest
  | MsgNotification JSONRPCNotification
  | MsgResponse "'r JSONRPCResponse"

record 'r peer =
  send_results :: "error option list"
  sent :: "'r message list"
  waits :: "('r JSONRPCResponse list \<times> ctx \<times> bool) list"

definition transport_Send :: "'r message \<Rightarrow> 'r peer \<Rightarrow> error option \<times> 'r peer" where
  "transport_Send m p =
     (case send_results p of
        [] \<Rightarrow> (None, p\<lparr>sent := sent p @ [m]\<rparr>)
      | e # es \<Rightarrow> (e, p\<lparr>send_results := es, sent := sent p @ [m]\<rparr>))"

definition next_wait :: "'r peer \<Rightarrow> ('r JSONRPCResponse list \<times> ctx \<times> bool) \<times> 'r peer" where
  "next_wait p =
     (case waits p of
        [] \<Rightarrow> (([], None, True), p)
      | w # ws \<Rightarrow> (w, p\<lparr>waits := ws\<rparr>))"

definition Client_receiveResponse :: "'r JSONRPCResponse \<Rightarrow> 'r Client \<Rightarrow> error option \<times> 'r Client" where
  "Client_receiveResponse response c =
     (case map_of (c_reqID2respChan c) (fmt_Sprint (resp_ID response)) of
        None \<Rightarrow>
          (Some (wrap_sentinel ErrLackResponseChan (''requestID='' @ fmt_Sprint (resp_ID response))), c)
      | Some respChan \<Rightarrow>
          (case try_send response respChan of
             Some respChan' \<Rightarrow>
               (None, c\<lparr>c_reqID2respChan :=
                          AList.update (fmt_Sprint (resp_ID response)) respChan' (c_reqID2respChan c)\<rparr>)
           | None \<Rightarrow> (Some (wrap_sentinel ErrDuplicateResponseReceived ''response=''), c)))"

definition Client_sendMsgWithNotification ::
  "'r json_lib \<Rightarrow> string \<Rightarrow> bytes \<Rightarrow> 'r peer \<Rightarrow> error option \<times> 'r peer" where
  "Client_sendMsgWithNotification lib method params p =
     (let notify = NewJSONRPCNotification method params in
      case Marshal_Notification lib notify of
        Inl e \<Rightarrow> (Some (errors_New e), p)
      | Inr message \<Rightarrow>
          (case transport_Send (MsgNotification notify) p of
             (Some err, p') \<Rightarrow>
               (Some (fmt_Errorf (''sendNotification: transport send: '' @ Error_text err) err), p')
           | (None, p') \<Rightarrow> (None, p')))"



text \<open>
  \<open>sendMsgWithRequest\<close>. Its call of \<open>againInitialization\<close> is the argument \<open>again\<close>:
  the four functions \<open>sendMsgWithRequest\<close>, \<open>againInitialization\<close>, \<open>initialization\<close> and
  \<open>callServer\<close> call each other in a cycle, which is closed below.
\<close>

type_synonym 'r again = "'r Client \<Rightarrow> 'r peer \<Rightarrow> (error option \<times> 'r Client \<times> 'r peer) outcome"

definition sendMsgWithRequest_with ::
  "'r again \<Rightarrow> 'r json_lib \<Rightarrow> RequestID \<Rightarrow> string \<Rightarrow> bytes \<Rightarrow> 'r Client \<Rightarrow> 'r peer \<Rightarrow>
   (error option \<times> 'r Client \<times> 'r peer) outcome" where
  "sendMsgWithRequest_with again lib rid method params c p =
     (if rid = IDNil then Returns (Some (errors_New ''requestID can't is nil''), c, p)
      else
        (let req = NewJSONRPCRequest rid method params in
         case Marshal_Request lib req of
           Inl e \<Rightarrow> Returns (Some (errors_New e), c, p)
         | Inr message \<Rightarrow>
             (case transport_Send (MsgRequest req) p of
                (None, p') \<Rightarrow> Returns (None, c, p')
              | (Some err, p') \<Rightarrow>
                  if \<not> errors_Is err ErrSessionClosed
                  then Returns (Some (fmt_Errorf (''sendRequest: transport send: '' @ Error_text err) err),
                                c, p')
                  else
                    (case again c p' of
                       Returns (Some err', c', p'') \<Rightarrow> Returns (Some err', c', p'')
                     | Returns (None, c', p'') \<Rightarrow> Returns (None, c', p'')
                     | Blocks \<Rightarrow> Blocks
                     | Panics \<Rightarrow> Panics))))"

definition c_remove_slot :: "string \<Rightarrow> 'r Client \<Rightarrow> 'r Client" where
  "c_remove_slot rid c = c\<lparr>c_reqID2respChan := AList.delete rid (c_reqID2respChan c)\<rparr>"

text \<open>
  The first part of \<open>callServer\<close> after its readiness check: the next request id and a
  reply channel of capacity 1 registered under its decimal text.
\<close>

definition callServer_register :: "'r Client \<Rightarrow> string \<times> 'r Client" where
  "callServer_register c =
     (let n = AddInt64 (c_requestID c) 1; rid = FormatInt n
      in (rid, c\<lparr>c_requestID := n,
                  c_reqID2respChan := AList.update rid (make_chan 1) (c_reqID2respChan c)\<rparr>))"

definition c_deliver :: "'r JSONRPCResponse \<Rightarrow> 'r Client \<Rightarrow> 'r Client" where
  "c_deliver response c = snd (Client_receiveResponse response c)"

definition callServer_with ::
  "'r again \<Rightarrow> 'r json_lib \<Rightarrow> string \<Rightarrow> bytes \<Rightarrow> 'r Client \<Rightarrow> 'r peer \<Rightarrow>
   ((error + bytes) \<times> 'r Client \<times> 'r peer) outcome" where
  "callServer_with again lib method params c p =
     (if \<not> c_ready c \<and> (method \<noteq> Initialize \<and> method \<noteq> Ping)
      then Returns (Inl (errors_New ''callServer: client not ready''), c, p)
      else
        (case callServer_register c of
           (rid, c1) \<Rightarrow>
             (case sendMsgWithRequest_with again lib (IDString rid) method params c1 p of
                Blocks \<Rightarrow> Blocks
              | Panics \<Rightarrow> Panics
              | Returns (Some err, c2, p2) \<Rightarrow>
                  Returns (Inl (fmt_Errorf (''callServer: '' @ Error_text err) err),
                           c_remove_slot rid c2, p2)
              | Returns (None, c2, p2) \<Rightarrow>
                  (case next_wait p2 of
                     ((arrivals, cx, pick), p3) \<Rightarrow>
                       (let c3 = fold c_deliver arrivals c2;
                            ready_resp =
                              (case map_of (c_reqID2respChan c3) rid of
                                 Some ch \<Rightarrow> (case buf ch of [] \<Rightarrow> None | r # rest \<Rightarrow> Some r)
                               | None \<Rightarrow> None)
                        in case cx of
                             Some e \<Rightarrow>
                               (case ready_resp of
                                  Some r \<Rightarrow>
                                    if pick then Returns (response_result r, c_remove_slot rid c3, p3)
                                    else Returns (Inl e, c_remove_slot rid c3, p3)
                                | None \<Rightarrow> Returns (Inl e, c_remove_slot rid c3, p3))
                           | None \<Rightarrow>
                               (case ready_resp of
                                  Some r \<Rightarrow> Returns (response_result r, c_remove_slot rid c3, p3)
                                | None \<Rightarrow> Blocks))))))"

definition bytes_text :: "bytes \<Rightarrow> string" where
  "bytes_text b = (case b of None \<Rightarrow> [] | Some s \<Rightarrow> s)"

definition initialization_with ::
  "'r again \<Rightarrow> 'r json_lib \<Rightarrow> client_protocol \<Rightarrow> string \<Rightarrow> string \<Rightarrow> 'r Client \<Rightarrow> 'r peer \<Rightarrow>
   ((error + InitializeResult) \<times> 'r Client \<times> 'r peer) outcome" where
  "initialization_with again lib proto info caps c p =
     (case callServer_with again lib Initialize (NewInitializeRequest proto info caps) c p of
        Blocks \<Rightarrow> Blocks
      | Panics \<Rightarrow> Panics
      | Returns (Inl err, c1, p1) \<Rightarrow> Returns (Inl err, c1, p1)
      | Returns (Inr response, c1, p1) \<Rightarrow>
          (case JSONUnmarshal (Unmarshal_InitializeResult proto) (bytes_text response) of
             Inl err \<Rightarrow>
               Returns (Inl (fmt_Errorf (''failed to unmarshal response: '' @ Error_text err) err), c1, p1)
           | Inr result \<Rightarrow>
               if ir_ProtocolVersion result \<notin> set (SupportedVersion proto)
               then Returns (Inl (errors_New
                                   (''protocol version not supported, supported lastest version is ''
                                    @ Version proto)), c1, p1)
               else
                 (case Client_sendMsgWithNotification lib NotificationInitialized
                         (NewInitializedNotification proto) p1 of
                    (Some err, p2) \<Rightarrow>
                      Returns (Inl (fmt_Errorf (''failed to send InitializedNotification: ''
                                                @ Error_text err) err), c1, p2)
                  | (None, p2) \<Rightarrow>
                      Returns (Inr result,
                               c1\<lparr>clientInfo := info, clientCapabilities := caps,
                                  serverInfo := Some (ir_ServerInfo result),
                                  serverCapabilities := Some (ir_Capabilities result),
                                  serverInstructions := ir_Instructions result,
                                  c_ready := True\<rparr>,
                               p2))))"

text \<open>
  \<open>againInitialization\<close>: store \<open>ready = false\<close>, take \<open>initializationMu\<close>, check
  \<open>ready\<close> again, re-run \<open>initialization\<close>, release the mutex. \<open>sync.Mutex\<close> is not
  reentrant: \<open>Lock\<close> by the task that holds the mutex never returns. While
  \<open>initialization\<close> runs here the mutex is held, so the \<open>againInitialization\<close> that its
  own \<open>sendMsgWithRequest\<close> may call suspends at \<open>Lock\<close>; that inner call is
  \<open>Lock_held\<close>. Lemma \<open>againInitialization_unfold\<close> shows that this definition satisfies
  the recursive equation of the source.
\<close>

definition Lock_held :: "'r again" where
  "Lock_held c p = Blocks"

definition againInitialization :: "'r json_lib \<Rightarrow> client_protocol \<Rightarrow> 'r again" where
  "againInitialization lib proto c p =
     (let c1 = c\<lparr>c_ready := False\<rparr> in
      if initializationMu c1 then Blocks
      else
        (let c2 = c1\<lparr>initializationMu := True\<rparr> in
         if c_ready c2 then Returns (None, c2\<lparr>initializationMu := False\<rparr>, p)
         else
           (case initialization_with Lock_held lib proto (clientInfo c2) (clientCapabilities c2) c2 p of
              Blocks \<Rightarrow> Blocks
            | Panics \<Rightarrow> Panics
            | Returns (Inl err, c3, p3) \<Rightarrow> Returns (Some err, c3\<lparr>initializationMu := False\<rparr>, p3)
            | Returns (Inr result, c3, p3) \<Rightarrow>
                Returns (None, c3\<lparr>c_ready := True, initializationMu := False\<rparr>, p3))))"

definition Client_sendMsgWithRequest ::
  "'r json_lib \<Rightarrow> client_protocol \<Rightarrow> RequestID \<Rightarrow> string \<Rightarrow> bytes \<Rightarrow> 'r Client \<Rightarrow> 'r peer \<Rightarrow>
   (error option \<times> 'r Client \<times> 'r peer) outcome" where
  "Client_sendMsgWithRequest lib proto = sendMsgWithRequest_with (againInitialization lib proto) lib"

definition callServer ::
  "'r json_lib \<Rightarrow> client_protocol \<Rightarrow> string \<Rightarrow> bytes \<Rightarrow> 'r Client \<Rightarrow> 'r peer \<Rightarrow>
   ((error + bytes) \<times> 'r Client \<times> 'r peer) outcome" where
  "callServer lib proto = callServer_with (againInitialization lib proto) lib"

definition initialization ::
  "'r json_lib \<Rightarrow> client_protocol \<Rightarrow> string \<Rightarrow> string \<Rightarrow> 'r Client \<Rightarrow> 'r peer \<Rightarrow>
   ((error + InitializeResult) \<times> 'r Client \<times> 'r peer) outcome" where
  "initialization lib proto = initialization_with (againInitialization lib proto) lib proto"






section \<open>Reading the record of a dispatch\<close>

definition is_receive_call :: "event \<Rightarrow> bool" where
  "is_receive_call e \<longleftrightarrow>
     e = CallReceiveNotify \<or> e = CallReceiveResponse \<or> e = CallReceiveRequest"

definition receive_calls :: "event list \<Rightarrow> event list" where
  "receive_calls evs = filter is_receive_call evs"



section \<open>Content decoding (CallToolResult.UnmarshalJSON)\<close>

text \<open>
  The content types \<open>TextContent\<close>, \<open>ImageContent\<close>, \<open>AudioContent\<close> and
  \<open>EmbeddedResource\<close> and their decoders are not among the sources: a decoded value of
  any of them has type \<open>'c\<close>, and what \<open>json.Unmarshal\<close> returns for each is a parameter,
  as is the decoding of the outer object into its raw \<open>content\<close> elements and \<open>isError\<close>.
\<close>

datatype 'c Content = TextContent 'c | ImageContent 'c | AudioContent 'c | EmbeddedResource 'c

record 'c content_lib =
  Unmarshal_aux :: "string \<Rightarrow> string + string list \<times> bool"
  Unmarshal_TextContent :: "string \<Rightarrow> string + 'c"
  Unmarshal_ImageContent :: "string \<Rightarrow> string + 'c"
  Unmarshal_AudioContent :: "string \<Rightarrow> string + 'c"
  Unmarshal_EmbeddedResource :: "string \<Rightarrow> string + 'c"

text \<open>\<open>CallToolResult\<close>; a slot of \<open>Content\<close> that was never assigned is the nil interface.\<close>

record 'c CallToolResult =
  ctr_Content :: "'c Content option list"
  ctr_IsError :: bool

text \<open>
  The loop \<open>for i, content := range aux.Content\<close>: \<open>i\<close> is the index, the list holds the
  elements from \<open>i\<close> on, \<open>out\<close> is \<open>r.Content\<close>. The text, image and audio branches end
  in \<open>continue\<close>; the embedded-resource branch ends in \<open>return nil\<close>.
\<close>

fun decode_contents ::
  "'c content_lib \<Rightarrow> nat \<Rightarrow> string list \<Rightarrow> 'c Content option list \<Rightarrow>
   error option \<times> 'c Content option list" where
  "decode_contents lib i [] out = (None, out)"
| "decode_contents lib i (content # rest) out =
     (case JSONUnmarshal (Unmarshal_TextContent lib) content of
        Inr textContent \<Rightarrow> decode_contents lib (Suc i) rest (out[i := Some (TextContent textContent)])
      | Inl e1 \<Rightarrow>
     (case JSONUnmarshal (Unmarshal_ImageContent lib) content of
        Inr imageContent \<Rightarrow> decode_contents lib (Suc i) rest (out[i := Some (ImageContent imageContent)])
      | Inl e2 \<Rightarrow>
     (case JSONUnmarshal (Unmarshal_AudioContent lib) content of
        Inr audioContent \<Rightarrow> decode_contents lib (Suc i) rest (out[i := Some (AudioContent audioContent)])
      | Inl e3 \<Rightarrow>
     (case JSONUnmarshal (Unmarshal_EmbeddedResource lib) content of
        Inr embeddedResource \<Rightarrow> (None, out[i := Some (EmbeddedResource embeddedResource)])
      | Inl e4 \<Rightarrow>
          (Some (errors_New (''unknown content type at index '' @ FormatInt (int i))), out)))))"

definition UnmarshalJSON ::
  "'c content_lib \<Rightarrow> string \<Rightarrow> 'c CallToolResult \<Rightarrow> error option \<times> 'c CallToolResult" where
  "UnmarshalJSON lib data r =
     (case JSONUnmarshal (Unmarshal_aux lib) data of
        Inl err \<Rightarrow> (Some err, r)
      | Inr (contents, isError) \<Rightarrow>
          (case decode_contents lib 0 contents (replicate (length contents) None) of
             (e, out) \<Rightarrow> (e, \<lparr>ctr_Content = out, ctr_IsError = isError\<rparr>)))"

text \<open>
  The condition under which \<open>heartbeat_visit\<close> calls \<open>CloseSession\<close>, read off its two
  branches: the idle test, or no successful attempt among the three.
\<close>

definition visit_closes :: "int \<Rightarrow> int \<Rightarrow> (nat \<Rightarrow> error option) \<Rightarrow> int \<Rightarrow> bool" where
  "visit_closes idle now d la \<longleftrightarrow> (idle \<noteq> 0 \<and> time_Sub now la > idle) \<or> (\<forall>i<3. d i \<noteq> None)"

section \<open>Example states\<close>


definition always_alive :: "string \<Rightarrow> nat \<Rightarrow> error option" where
  "always_alive sid i = None"

definition third_try_alive :: "string \<Rightarrow> nat \<Rightarrow> error option" where
  "third_try_alive sid i =
     (if sid = ''s2'' \<and> i = 2 then None else Some (Sentinel ContextDeadlineExceeded))"

definition negative_idle_manager :: "unit Manager" where
  "negative_idle_manager =
     \<lparr>activeSessions = [(''s1'', NewState 0)], closedSessions = [], maxIdleTime = - 1\<rparr>"

definition two_session_manager :: "unit Manager" where
  "two_session_manager =
     \<lparr>activeSessions = [(''s1'', NewState 0), (''s2'', NewState 95)], closedSessions = [],
      maxIdleTime = 10\<rparr>"

definition one_session_manager :: "unit Manager" where
  "one_session_manager =
     \<lparr>activeSessions = [(''s1'', NewState 0)], closedSessions = [], maxIdleTime = 0\<rparr>"

definition msg_tools_list :: string where
  \<open>msg_tools_list = ''{"jsonrpc":"2.0","id":2,"method":"tools/list"}''\<close>

definition msg_cancelled :: string where
  \<open>msg_cancelled = ''{"jsonrpc":"2.0","method":"notifications/cancelled"}''\<close>

definition msg_response :: string where
  \<open>msg_response = ''{"jsonrpc":"2.0","id":"1","result":{}}''\<close>

definition tools_list_request :: JSONRPCRequest where
  "tools_list_request =
     \<lparr>req_JSONRPC = ''2.0'', req_ID = IDNumber ''2'', req_Method = ''tools/list'',
      req_RawParams = None\<rparr>"


definition cancelled_notification :: JSONRPCNotification where
  "cancelled_notification =
     \<lparr>ntf_JSONRPC = ''2.0'', ntf_Method = ''notifications/cancelled'', ntf_RawParams = None\<rparr>"

definition first_response :: "string JSONRPCResponse" where
  "first_response =
     \<lparr>resp_JSONRPC = ''2.0'', resp_ID = IDString ''1'', resp_Result = Some ''{}'',
      resp_RawResult = Some ''{}'', resp_Error = None\<rparr>"


definition demo_lib :: "string json_lib" where
  "demo_lib =
     \<lparr>gjson_Exists =
        (\<lambda>msg path. (msg, path) \<in> set [(msg_tools_list, ''id''), (msg_tools_list, ''method''),
                                        (msg_response, ''id''), (msg_cancelled, ''method'')]),
      Unmarshal_Notification =
        (\<lambda>msg. if msg = msg_cancelled then Inr cancelled_notification
                else Inl ''unexpected end of JSON input''),
      Unmarshal_Response =
        (\<lambda>msg. if msg = msg_response then Inr first_response
                else Inl ''unexpected end of JSON input''),
      Unmarshal_Request =
        (\<lambda>msg. if msg = msg_tools_list then Inr tools_list_request
                else Inl ''unexpected end of JSON input''),
      Marshal_Response = (\<lambda>r. Inr ''response''),
      Marshal_Request = (\<lambda>r. Inr ''request''),
      Marshal_Notification = (\<lambda>n. Inr ''notification'')\<rparr>"





definition demo_client :: "string Client" where
  "demo_client =
     \<lparr>c_reqID2respChan = [], c_requestID = 0, c_ready = True, initializationMu = False,
      clientInfo = ''info'', clientCapabilities = ''caps'', serverInfo = Some ''server'',
      serverCapabilities = Some ''scaps'', serverInstructions = ''''\<rparr>"


definition demo_proto :: client_protocol where
  "demo_proto =
     \<lparr>Unmarshal_InitializeResult =
        (\<lambda>s. Inr \<lparr>ir_ProtocolVersion = ''2024-11-05'', ir_ServerInfo = ''server'',
                   ir_Capabilities = ''scaps'', ir_Instructions = ''''\<rparr>),
      SupportedVersion = [''2024-11-05''],
      Version = ''2024-11-05'',
      NewInitializeRequest = (\<lambda>info caps. Some (info @ caps)),
      NewInitializedNotification = None\<rparr>"

definition init_response :: "string JSONRPCResponse" where
  "init_response =
     \<lparr>resp_JSONRPC = ''2.0'', resp_ID = IDString ''2'', resp_Result = Some ''init'',
      resp_RawResult = Some ''init'', resp_Error = None\<rparr>"

definition closing_peer :: "string peer" where
  "closing_peer =
     \<lparr>send_results = [Some (Sentinel ErrSessionClosed)], sent = [],
      waits = [([init_response], None, True),
               ([], Some (Sentinel ContextDeadlineExceeded), True)]\<rparr>"

definition registered_client :: "string Client" where
  "registered_client =
     \<lparr>c_reqID2respChan = [(''1'', make_chan 1)], c_requestID = 1, c_ready = True,
      initializationMu = False, clientInfo = ''info'', clientCapabilities = ''caps'',
      serverInfo = Some ''server'', serverCapabilities = Some ''scaps'', serverInstructions = ''''\<rparr>"

definition tools_list_call :: JSONRPCRequest where
  "tools_list_call = NewJSONRPCRequest (IDString ''1'') ToolsList None"

definition refused_peer :: "string peer" where
  "refused_peer =
     \<lparr>send_results = [], sent = [MsgRequest tools_list_call],
      waits = [([init_response], None, True),
               ([], Some (Sentinel ContextDeadlineExceeded), True)]\<rparr>"

definition reinit_client :: "string Client" where
  "reinit_client = registered_client\<lparr>c_requestID := 2\<rparr>"

definition reinit_peer :: "string peer" where
  "reinit_peer =
     \<lparr>send_results = [],
      sent = [MsgRequest tools_list_call,
              MsgRequest (NewJSONRPCRequest (IDString ''2'') Initialize (Some ''infocaps'')),
              MsgNotification (NewJSONRPCNotification NotificationInitialized None)],
      waits = [([], Some (Sentinel ContextDeadlineExceeded), True)]\<rparr>"

text \<open>
  A tool result whose first content element is an embedded resource and whose second is a
  text; and one whose second element is of no known type. The decoders accept an element
  by its \<open>type\<close> tag.
\<close>

definition elem_resource :: string where
  \<open>elem_resource = ''{"type":"resource","resource":{"uri":"file:///a","text":"x"}}''\<close>

definition elem_text :: string where
  \<open>elem_text = ''{"type":"text","text":"hi"}''\<close>

definition elem_video :: string where
  \<open>elem_video = ''{"type":"video","data":"AAAA"}''\<close>

definition body_resource_text :: string where
  \<open>body_resource_text = ''{"content":['' @ elem_resource @ '','' @ elem_text @ '']}''\<close>

definition body_resource_video :: string where
  \<open>body_resource_video = ''{"content":['' @ elem_resource @ '','' @ elem_video @ '']}''\<close>

definition demo_content_lib :: "string content_lib" where
  "demo_content_lib =
     \<lparr>Unmarshal_aux =
        (\<lambda>data. if data = body_resource_text then Inr ([elem_resource, elem_text], False)
                 else if data = body_resource_video then Inr ([elem_resource, elem_video], False)
                 else Inl ''unexpected end of JSON input''),
      Unmarshal_TextContent =
        (\<lambda>raw. if raw = elem_text then Inr ''hi'' else Inl ''invalid content type''),
      Unmarshal_ImageContent = (\<lambda>raw. Inl ''invalid content type''),
      Unmarshal_AudioContent = (\<lambda>raw. Inl ''invalid content type''),
      Unmarshal_EmbeddedResource =
        (\<lambda>raw. if raw = elem_resource then Inr ''file:///a'' else Inl ''invalid content type'')\<rparr>"

definition empty_result :: "string CallToolResult" where
  "empty_result = \<lparr>ctr_Content = [], ctr_IsError = False\<rparr>"

section \<open>The session manager: active and closed sets\<close>

lemma IsActive_update:
  "IsActiveSession s (m\<lparr>activeSessions := AList.update k v (activeSessions m)\<rparr>) \<longleftrightarrow>
   s = k \<or> IsActiveSession s m"
  by (simp add: IsActiveSession_def update_conv')

lemma IsActive_CloseSession:
  "IsActiveSession s (CloseSession k m) \<longleftrightarrow> s \<noteq> k \<and> IsActiveSession s m"
  by (auto simp add: IsActiveSession_def CloseSession_def delete_conv' split: option.splits)

lemma IsClosed_CloseSession:
  "IsClosedSession s (CloseSession k m) \<longleftrightarrow> IsClosedSession s m \<or> (s = k \<and> IsActiveSession s m)"
  by (auto simp add: IsActiveSession_def IsClosedSession_def CloseSession_def split: option.splits)

lemma maxIdle_CloseSession: "maxIdleTime (CloseSession k m) = maxIdleTime m"
  by (simp add: CloseSession_def split: option.splits)

lemma detection_loop_iff:
  "detection_loop d i k \<longleftrightarrow> (\<exists>j. i \<le> j \<and> j < i + k \<and> d j = None)"
proof (induction k arbitrary: i)
  case 0
  then show ?case by simp
next
  case (Suc k)
  show ?case
  proof (cases "d i")
    case None
    then show ?thesis by auto
  next
    case (Some e)
    have "(\<exists>j. Suc i \<le> j \<and> j < Suc i + k \<and> d j = None) \<longleftrightarrow>
          (\<exists>j. i \<le> j \<and> j < i + Suc k \<and> d j = None)"
      using Some
      by (metis Suc_leD Suc_le_eq add_Suc add_Suc_right le_neq_implies_less option.distinct(1))
    then show ?thesis using Some Suc.IH[of "Suc i"] by simp
  qed
qed

lemma detection_loop_3: "detection_loop d 0 3 \<longleftrightarrow> \<not> (\<forall>i<3. d i \<noteq> None)"
  by (auto simp: detection_loop_iff)

lemma visit_maxIdle: "maxIdleTime (heartbeat_visit now det p m) = maxIdleTime m"
  by (cases p) (simp add: heartbeat_visit_def maxIdle_CloseSession)

lemma visit_active:
  "IsActiveSession s (heartbeat_visit now det (k, st) m) \<longleftrightarrow>
   IsActiveSession s m \<and> (s = k \<longrightarrow> \<not> visit_closes (maxIdleTime m) now (det k) (lastActiveAt st))"
  by (auto simp add: heartbeat_visit_def IsActive_CloseSession visit_closes_def detection_loop_3)

lemma visit_closed:
  "IsClosedSession s (heartbeat_visit now det (k, st) m) \<longleftrightarrow>
   IsClosedSession s m \<or>
   (IsActiveSession s m \<and> s = k \<and> visit_closes (maxIdleTime m) now (det k) (lastActiveAt st))"
  by (auto simp add: heartbeat_visit_def IsClosed_CloseSession visit_closes_def detection_loop_3)

lemma fold_visit_active:
  "IsActiveSession s (fold (heartbeat_visit now det) xs m) \<longleftrightarrow>
   IsActiveSession s m \<and>
   (\<forall>st. (s, st) \<in> set xs \<longrightarrow> \<not> visit_closes (maxIdleTime m) now (det s) (lastActiveAt st))"
proof (induction xs arbitrary: m)
  case Nil
  then show ?case by simp
next
  case (Cons p xs)
  obtain k st where p: "p = (k, st)" by (cases p)
  show ?case using Cons.IH[of "heartbeat_visit now det (k, st) m"]
    by (auto simp add: p visit_active visit_maxIdle)
qed

lemma fold_visit_closed:
  "IsClosedSession s (fold (heartbeat_visit now det) xs m) \<longleftrightarrow>
   IsClosedSession s m \<or>
   (IsActiveSession s m \<and>
    (\<exists>st. (s, st) \<in> set xs \<and> visit_closes (maxIdleTime m) now (det s) (lastActiveAt st)))"
proof (induction xs arbitrary: m)
  case Nil
  then show ?case by simp
next
  case (Cons p xs)
  obtain k st where p: "p = (k, st)" by (cases p)
  show ?case using Cons.IH[of "heartbeat_visit now det (k, st) m"]
    by (auto simp add: p visit_active visit_closed visit_maxIdle)
qed

lemma CloseAll_active:
  "IsActiveSession s (fold (\<lambda>(sessionID, st). CloseSession sessionID) xs m) \<Longrightarrow> IsActiveSession s m"
proof (induction xs arbitrary: m)
  case Nil
  then show ?case by simp
next
  case (Cons p xs)
  obtain k st where p: "p = (k, st)" by (cases p)
  have "IsActiveSession s (CloseSession k m)"
    using Cons.IH[of "CloseSession k m"] Cons.prems by (simp add: p)
  then show ?case by (simp add: IsActive_CloseSession)
qed

lemma CloseAll_closed:
  "IsClosedSession s m \<Longrightarrow> IsClosedSession s (fold (\<lambda>(sessionID, st). CloseSession sessionID) xs m)"
proof (induction xs arbitrary: m)
  case Nil
  then show ?case by simp
next
  case (Cons p xs)
  obtain k st where p: "p = (k, st)" by (cases p)
  have "IsClosedSession s (CloseSession k m)" using Cons.prems by (simp add: IsClosed_CloseSession)
  then show ?case using Cons.IH[of "CloseSession k m"] by (simp add: p)
qed

text \<open>Only \<open>CreateSession\<close> adds a key to the active map.\<close>

lemma step_active:
  assumes h: "IsActiveSession s (mgr_step op m)"
  shows "IsActiveSession s m \<or> s \<in> set (created_ids [op])"
proof (cases op)
  case (OpCreateSession u n)
  then show ?thesis using h by (auto simp: CreateSession_def IsActive_update)
next
  case (OpSetMaxIdleTime d)
  then show ?thesis using h by (auto simp: SetMaxIdleTime_def IsActiveSession_def)
next
  case (OpOpenMessageQueueForSend sid)
  then show ?thesis using h
    by (auto simp: OpenMessageQueueForSend_def GetSession_def IsActiveSession_def update_conv'
             split: option.splits if_splits)
next
  case (OpEnqueueMessageForSend c pick sid msg)
  then show ?thesis using h
    by (auto simp: EnqueueMessageForSend_def GetSession_def IsActiveSession_def update_conv'
             split: option.splits if_splits outcome.splits)
next
  case (OpDequeueMessageForSend c pick sid)
  then show ?thesis using h
    by (auto simp: DequeueMessageForSend_def GetSession_def IsActiveSession_def update_conv'
             split: option.splits if_splits outcome.splits)
next
  case (OpUpdateSessionLastActiveAt n sid)
  then show ?thesis using h
    by (auto simp: UpdateSessionLastActiveAt_def IsActiveSession_def update_conv'
             split: option.splits if_splits)
next
  case (OpCloseSession sid)
  then show ?thesis using h by (auto simp: IsActive_CloseSession)
next
  case OpCloseAllSessions
  then show ?thesis using h CloseAll_active[of s "activeSessions m" m]
    by (simp add: CloseAllSessions_def)
next
  case (OpHeartbeatTick n det)
  then show ?thesis using h by (auto simp: heartbeat_tick_def fold_visit_active)
qed

text \<open>No operation removes a key from the closed map.\<close>

lemma step_closed:
  assumes h: "IsClosedSession s m"
  shows "IsClosedSession s (mgr_step op m)"
proof (cases op)
  case (OpCreateSession u n)
  then show ?thesis using h by (auto simp: CreateSession_def IsClosedSession_def)
next
  case (OpSetMaxIdleTime d)
  then show ?thesis using h by (auto simp: SetMaxIdleTime_def IsClosedSession_def)
next
  case (OpOpenMessageQueueForSend sid)
  then show ?thesis using h
    by (auto simp: OpenMessageQueueForSend_def IsClosedSession_def split: option.splits if_splits)
next
  case (OpEnqueueMessageForSend c pick sid msg)
  then show ?thesis using h
    by (auto simp: EnqueueMessageForSend_def IsClosedSession_def
             split: option.splits if_splits outcome.splits)
next
  case (OpDequeueMessageForSend c pick sid)
  then show ?thesis using h
    by (auto simp: DequeueMessageForSend_def IsClosedSession_def
             split: option.splits if_splits outcome.splits)
next
  case (OpUpdateSessionLastActiveAt n sid)
  then show ?thesis using h
    by (auto simp: UpdateSessionLastActiveAt_def IsClosedSession_def split: option.splits if_splits)
next
  case (OpCloseSession sid)
  then show ?thesis using h by (auto simp: IsClosed_CloseSession)
next
  case OpCloseAllSessions
  then show ?thesis using h CloseAll_closed[of s m "activeSessions m"]
    by (simp add: CloseAllSessions_def)
next
  case (OpHeartbeatTick n det)
  then show ?thesis using h by (auto simp: heartbeat_tick_def fold_visit_closed)
qed

lemma created_ids_Cons:
  "set (created_ids (op # ops)) = set (created_ids [op]) \<union> set (created_ids ops)"
  by (cases op) auto

lemma run_inactive:
  "\<not> IsActiveSession s m \<Longrightarrow> s \<notin> set (created_ids ops) \<Longrightarrow>
   \<not> IsActiveSession s (fold mgr_step ops m)"
proof (induction ops arbitrary: m)
  case Nil
  then show ?case by simp
next
  case (Cons op ops)
  have a: "s \<notin> set (created_ids [op])" and b: "s \<notin> set (created_ids ops)"
    using Cons.prems(2) created_ids_Cons[of op ops] by auto
  have "\<not> IsActiveSession s (mgr_step op m)"
    using step_active[of s op m] Cons.prems(1) a by blast
  then show ?case using Cons.IH b by simp
qed

lemma run_closed: "IsClosedSession s m \<Longrightarrow> IsClosedSession s (fold mgr_step ops m)"
  by (induction ops arbitrary: m) (simp_all add: step_closed)

text \<open>
  C4. For a session id \<open>s\<close> in the active set, after \<open>CloseSession s\<close> the id is not
  active and is closed, and it stays so after any further run of manager operations in
  which the UUID generator does not hand out \<open>s\<close> again (\<open>CreateSession\<close> is the only
  operation that stores into the active map, and it stores under the generated id).
\<close>

theorem CloseSession_is_final:
  assumes "IsActiveSession s m" and "s \<notin> set (created_ids ops)"
  shows "\<not> IsActiveSession s (CloseSession s m) \<and> IsClosedSession s (CloseSession s m) \<and>
         \<not> IsActiveSession s (fold mgr_step ops (CloseSession s m)) \<and>
         IsClosedSession s (fold mgr_step ops (CloseSession s m))"
proof -
  have 1: "\<not> IsActiveSession s (CloseSession s m)" by (simp add: IsActive_CloseSession)
  have 2: "IsClosedSession s (CloseSession s m)" using assms(1) by (simp add: IsClosed_CloseSession)
  show ?thesis using 1 2 run_inactive[OF 1 assms(2)] run_closed[OF 2] by blast
qed

theorem CloseSession_is_final_witness:
  "IsActiveSession ''s1'' two_session_manager \<and>
   ''s1'' \<notin> set (created_ids [OpCreateSession ''s3'' 7, OpOpenMessageQueueForSend ''s2'',
                                 OpHeartbeatTick 100 always_alive, OpCloseAllSessions]) \<and>
   \<not> IsActiveSession ''s1''
       (fold mgr_step [OpCreateSession ''s3'' 7, OpOpenMessageQueueForSend ''s2'',
                       OpHeartbeatTick 100 always_alive, OpCloseAllSessions]
          (CloseSession ''s1'' two_session_manager)) \<and>
   IsClosedSession ''s1''
       (fold mgr_step [OpCreateSession ''s3'' 7, OpOpenMessageQueueForSend ''s2'',
                       OpHeartbeatTick 100 always_alive, OpCloseAllSessions]
          (CloseSession ''s1'' two_session_manager))"
proof -
  have a: "IsActiveSession ''s1'' two_session_manager"
    by (simp add: IsActiveSession_def two_session_manager_def)
  have b: "''s1'' \<notin> set (created_ids [OpCreateSession ''s3'' 7, OpOpenMessageQueueForSend ''s2'',
                                 OpHeartbeatTick 100 always_alive, OpCloseAllSessions])"
    by simp
  show ?thesis using a b CloseSession_is_final[OF a b] by blast
qed

section \<open>The outbox of a closed session\<close>









section \<open>The heartbeat sweep\<close>

lemma distinct_map_of_mem:
  "distinct (map fst xs) \<Longrightarrow> map_of xs k = Some v \<Longrightarrow> (k, v') \<in> set xs \<Longrightarrow> v' = v"
  by (metis map_of_is_SomeI option.inject)

text \<open>
  C6, as the code has it. For a session in the active map, one tick of the sweep closes it
  (removes it from the active map and records it as closed) if and only if
  \<open>maxIdleTime\<close> is not zero and the time since \<open>lastActiveAt\<close> exceeds it, or the
  detection callback fails on all three attempts; otherwise the session is still active.
\<close>

theorem heartbeat_tick_closes_iff:
  assumes "distinct (map fst (activeSessions m))"
      and "map_of (activeSessions m) sid = Some st"
  shows "((\<not> IsActiveSession sid (heartbeat_tick now detection m) \<and>
           IsClosedSession sid (heartbeat_tick now detection m))
          \<longleftrightarrow>
          (maxIdleTime m \<noteq> 0 \<and> time_Sub now (lastActiveAt st) > maxIdleTime m) \<or>
          (\<forall>i<3. detection sid i \<noteq> None)) \<and>
         (IsActiveSession sid (heartbeat_tick now detection m)
          \<longleftrightarrow>
          \<not> ((maxIdleTime m \<noteq> 0 \<and> time_Sub now (lastActiveAt st) > maxIdleTime m) \<or>
              (\<forall>i<3. detection sid i \<noteq> None)))"
proof -
  have mem: "(sid, st) \<in> set (activeSessions m)" using assms(2) by (rule map_of_SomeD)
  have uniq: "\<And>st'. (sid, st') \<in> set (activeSessions m) \<Longrightarrow> st' = st"
    using distinct_map_of_mem[OF assms(1) assms(2)] by blast
  have act: "IsActiveSession sid m" using assms(2) by (simp add: IsActiveSession_def)
  have A: "IsActiveSession sid (heartbeat_tick now detection m) \<longleftrightarrow>
           \<not> visit_closes (maxIdleTime m) now (detection sid) (lastActiveAt st)"
    unfolding heartbeat_tick_def fold_visit_active using act mem uniq by blast
  have C: "visit_closes (maxIdleTime m) now (detection sid) (lastActiveAt st) \<Longrightarrow>
           IsClosedSession sid (heartbeat_tick now detection m)"
    unfolding heartbeat_tick_def fold_visit_closed using act mem by blast
  show ?thesis using A C unfolding visit_closes_def by blast
qed

theorem heartbeat_tick_closes_iff_witness:
  "distinct (map fst (activeSessions two_session_manager)) \<and>
   map_of (activeSessions two_session_manager) ''s1'' = Some (NewState 0) \<and>
   map_of (activeSessions two_session_manager) ''s2'' = Some (NewState 95) \<and>
   \<not> IsActiveSession ''s1'' (heartbeat_tick 100 third_try_alive two_session_manager) \<and>
   IsClosedSession ''s1'' (heartbeat_tick 100 third_try_alive two_session_manager) \<and>
   IsActiveSession ''s2'' (heartbeat_tick 100 third_try_alive two_session_manager)"
proof -
  have d: "distinct (map fst (activeSessions two_session_manager))"
    by (simp add: two_session_manager_def)
  have a: "map_of (activeSessions two_session_manager) ''s1'' = Some (NewState 0)"
    by (simp add: two_session_manager_def)
  have b: "map_of (activeSessions two_session_manager) ''s2'' = Some (NewState 95)"
    by (simp add: two_session_manager_def)
  have idle1: "time_Sub 100 (lastActiveAt (NewState 0 :: unit State)) > maxIdleTime two_session_manager"
    by (simp add: time_Sub_def NewState_def two_session_manager_def maxDuration_def minDuration_def)
  have idle2: "\<not> time_Sub 100 (lastActiveAt (NewState 95 :: unit State)) > maxIdleTime two_session_manager"
    by (simp add: time_Sub_def NewState_def two_session_manager_def maxDuration_def minDuration_def)
  have nz: "maxIdleTime two_session_manager \<noteq> 0" by (simp add: two_session_manager_def)
  have ok2: "\<not> (\<forall>i<3. third_try_alive ''s2'' i \<noteq> None)"
    by (auto simp: third_try_alive_def intro: exI[of _ 2])
  show ?thesis
    using d a b idle1 idle2 nz ok2
      heartbeat_tick_closes_iff[OF d a, of 100 third_try_alive]
      heartbeat_tick_closes_iff[OF d b, of 100 third_try_alive]
    by blast
qed

text \<open>
  The claim with "\<open>maxIdleTime\<close> is positive" fails for a negative \<open>maxIdleTime\<close>: the
  test in the code is \<open>maxIdleTime != 0\<close>, so a session that was active this very
  instant and whose detection succeeds at once is closed.
\<close>

theorem heartbeat_positive_idle_counterexample:
  "IsActiveSession ''s1'' negative_idle_manager \<and>
   \<not> IsActiveSession ''s1'' (heartbeat_tick 0 always_alive negative_idle_manager) \<and>
   IsClosedSession ''s1'' (heartbeat_tick 0 always_alive negative_idle_manager) \<and>
   \<not> (0 < maxIdleTime negative_idle_manager) \<and>
   always_alive ''s1'' 0 = None"
  by (simp add: heartbeat_tick_def heartbeat_visit_def negative_idle_manager_def
        always_alive_def IsActiveSession_def IsClosedSession_def CloseSession_def
        NewState_def time_Sub_def maxDuration_def minDuration_def)

section \<open>DELETE on the streamable-HTTP endpoint\<close>




section \<open>Dispatch: classification, readiness, reply slots, responses\<close>





lemma receive_calls_simps [simp]:
  "receive_calls [] = []"
  "receive_calls (CallReceiveNotify # evs) = CallReceiveNotify # receive_calls evs"
  "receive_calls (CallReceiveResponse # evs) = CallReceiveResponse # receive_calls evs"
  "receive_calls (CallReceiveRequest # evs) = CallReceiveRequest # receive_calls evs"
  "receive_calls (CallHandler m # evs) = receive_calls evs"
  by (simp_all add: receive_calls_def is_receive_call_def)






























section \<open>The client: a send refused with a closed session\<close>

lemma digit_inj: "a < 10 \<Longrightarrow> b < 10 \<Longrightarrow> ''0123456789'' ! a = ''0123456789'' ! b \<Longrightarrow> a = b"
proof -
  have d: "distinct ''0123456789''" by simp
  assume "a < 10" "b < 10" "''0123456789'' ! a = ''0123456789'' ! b"
  then show "a = b" using d by (simp add: nth_eq_iff_index_eq)
qed

lemma digit_not_minus: "a < 10 \<Longrightarrow> ''0123456789'' ! a \<noteq> CHR ''-''"
proof -
  assume "a < 10"
  then have "''0123456789'' ! a \<in> set ''0123456789''" by (intro nth_mem) simp
  then show ?thesis by auto
qed

lemma digits_of_nonempty: "digits_of n \<noteq> []"
  by (subst digits_of.simps) simp

lemma digits_of_small: "n < 10 \<Longrightarrow> digits_of n = [''0123456789'' ! n]"
  by (subst digits_of.simps) simp

lemma digits_of_big: "\<not> n < 10 \<Longrightarrow> digits_of n = digits_of (n div 10) @ [''0123456789'' ! (n mod 10)]"
  by (subst digits_of.simps) simp

lemma digits_of_inj: "digits_of m = digits_of n \<Longrightarrow> m = n"
proof (induction m arbitrary: n rule: digits_of.induct)
  case (1 m)
  show ?case
  proof (cases "m < 10")
    case True
    note m = this
    show ?thesis
    proof (cases "n < 10")
      case True
      then show ?thesis using m "1.prems" digit_inj by (simp add: digits_of_small)
    next
      case False
      then show ?thesis using m "1.prems" digits_of_nonempty[of "n div 10"]
        by (simp add: digits_of_small digits_of_big)
    qed
  next
    case False
    note m = this
    show ?thesis
    proof (cases "n < 10")
      case True
      then show ?thesis using m "1.prems" digits_of_nonempty[of "m div 10"]
        by (simp add: digits_of_small digits_of_big)
    next
      case False
      have e: "digits_of (m div 10) = digits_of (n div 10) \<and> ''0123456789'' ! (m mod 10) = ''0123456789'' ! (n mod 10)"
        using m False "1.prems" by (simp add: digits_of_big)
      have "m div 10 = n div 10" using "1.IH"[OF m] e by blast
      moreover have "m mod 10 = n mod 10" using e digit_inj[of "m mod 10" "n mod 10"] by simp
      ultimately show ?thesis by (metis div_mult_mod_eq)
    qed
  qed
qed

lemma digits_of_hd: "hd (digits_of n) \<noteq> CHR ''-''"
proof (induction n rule: digits_of.induct)
  case (1 n)
  show ?case
  proof (cases "n < 10")
    case True
    then show ?thesis using digit_not_minus by (simp add: digits_of_small)
  next
    case False
    then show ?thesis using "1.IH" digits_of_nonempty[of "n div 10"]
      by (simp add: digits_of_big)
  qed
qed

lemma FormatInt_inj: "FormatInt a = FormatInt b \<Longrightarrow> a = b"
proof -
  assume h: "FormatInt a = FormatInt b"
  consider "a < 0" "b < 0" | "a < 0" "\<not> b < 0" | "\<not> a < 0" "b < 0" | "\<not> a < 0" "\<not> b < 0" by blast
  then show ?thesis
  proof cases
    case 1
    then have "digits_of (nat (- a)) = digits_of (nat (- b))" using h by (simp add: FormatInt_def)
    then have "nat (- a) = nat (- b)" by (rule digits_of_inj)
    then show ?thesis using 1 by simp
  next
    case 2
    then have "CHR ''-'' # digits_of (nat (- a)) = digits_of (nat b)" using h by (simp add: FormatInt_def)
    then have "hd (digits_of (nat b)) = CHR ''-''" by (metis list.sel(1))
    then show ?thesis using digits_of_hd by blast
  next
    case 3
    then have "CHR ''-'' # digits_of (nat (- b)) = digits_of (nat a)" using h by (simp add: FormatInt_def)
    then have "hd (digits_of (nat a)) = CHR ''-''" by (metis list.sel(1))
    then show ?thesis using digits_of_hd by blast
  next
    case 4
    then have "digits_of (nat a) = digits_of (nat b)" using h by (simp add: FormatInt_def)
    then have "nat a = nat b" by (rule digits_of_inj)
    then show ?thesis using 4 by simp
  qed
qed

lemma AddInt64_neq: "AddInt64 n 1 \<noteq> n" if "- (2 ^ 63) \<le> n" "n < 2 ^ 63"
proof
  assume e: "AddInt64 n 1 = n"
  show False
  proof (cases "n + 1 < 2 ^ 63")
    case True
    then have "(n + 1 + 2 ^ 63) mod 2 ^ 64 = n + 1 + 2 ^ 63" using that by (intro mod_pos_pos_trivial) auto
    then show False using e by (simp add: AddInt64_def)
  next
    case False
    then have n: "n = 2 ^ 63 - 1" using that by simp
    show False using e unfolding n AddInt64_def by simp
  qed
qed

lemma AddInt64_range: "- (2 ^ 63) \<le> AddInt64 a b \<and> AddInt64 a b < 2 ^ 63"
proof -
  have "0 \<le> (a + b + 2 ^ 63) mod 2 ^ 64 \<and> (a + b + 2 ^ 63) mod (2 ^ 64 :: int) < 2 ^ 64"
    by simp
  then show ?thesis unfolding AddInt64_def by simp
qed

lemma AddInt64_succ_neq: "AddInt64 n 1 \<noteq> n"
proof (cases "- (2 ^ 63) \<le> n \<and> n < 2 ^ 63")
  case True
  then show ?thesis using AddInt64_neq by blast
next
  case False
  then show ?thesis using AddInt64_range[of n 1] by auto
qed

lemma next_id_differs: "FormatInt (AddInt64 n 1) \<noteq> FormatInt n"
  using FormatInt_inj AddInt64_succ_neq by blast

lemma transport_Send_log:
  "transport_Send m p = (e, p') \<Longrightarrow> sent p' = sent p @ [m] \<and> waits p' = waits p"
  by (auto simp: transport_Send_def split: list.splits)

lemma next_wait_log:
  "next_wait p = (w, p') \<Longrightarrow> sent p' = sent p \<and> waits p' = tl (waits p) \<and>
     (waits p \<noteq> [] \<longrightarrow> w = hd (waits p)) \<and> (waits p = [] \<longrightarrow> w = ([], None, True))"
  by (auto simp: next_wait_def split: list.splits)

lemma send_locked:
  assumes "sendMsgWithRequest_with Lock_held lib rid method params c p = Returns (None, c', p')"
  shows "c' = c \<and> transport_Send (MsgRequest (NewJSONRPCRequest rid method params)) p = (None, p')"
  using assms
  by (auto simp: sendMsgWithRequest_with_def Lock_held_def Let_def
        split: if_splits sum.splits prod.splits option.splits)

lemma call_locked:
  assumes "callServer_with Lock_held lib method params c p = Returns (Inr resp, c', p')"
  shows "\<exists>p1 arrivals cx pick.
           transport_Send (MsgRequest (NewJSONRPCRequest (IDString (fst (callServer_register c)))
                                         method params)) p = (None, p1) \<and>
           next_wait p1 = ((arrivals, cx, pick), p') \<and>
           c' = c_remove_slot (fst (callServer_register c))
                  (fold c_deliver arrivals (snd (callServer_register c)))"
proof -
  obtain rid c1 where reg: "callServer_register c = (rid, c1)" by (cases "callServer_register c")
  have nr: "\<not> (\<not> c_ready c \<and> (method \<noteq> Initialize \<and> method \<noteq> Ping))"
    using assms by (auto simp: callServer_with_def split: if_splits)
  from assms nr reg obtain c2 p2 where
    s: "sendMsgWithRequest_with Lock_held lib (IDString rid) method params c1 p = Returns (None, c2, p2)"
    by (auto simp: callServer_with_def split: outcome.splits option.splits prod.splits)
  have c2: "c2 = c1" and snd: "transport_Send (MsgRequest (NewJSONRPCRequest (IDString rid) method params)) p = (None, p2)"
    using send_locked[OF s] by auto
  obtain arrivals cx pick p3 where w: "next_wait p2 = ((arrivals, cx, pick), p3)"
    by (metis prod.exhaust)
  have "c' = c_remove_slot rid (fold c_deliver arrivals c1) \<and> p' = p3"
    using assms nr reg s w c2
    by (auto simp: callServer_with_def Let_def split: option.splits list.splits if_splits)
  then show ?thesis using reg snd w by auto
qed

lemma notify_send:
  assumes "Client_sendMsgWithNotification lib method params p = (None, p')"
  shows "transport_Send (MsgNotification (NewJSONRPCNotification method params)) p = (None, p')"
  using assms
  by (auto simp: Client_sendMsgWithNotification_def Let_def split: sum.splits prod.splits option.splits)

lemma init_locked:
  assumes "initialization_with Lock_held lib proto info caps c p = Returns (Inr result, c', p')"
  shows "\<exists>p1 p2 arrivals cx pick.
           transport_Send (MsgRequest (NewJSONRPCRequest (IDString (fst (callServer_register c)))
                                         Initialize (NewInitializeRequest proto info caps))) p = (None, p1) \<and>
           next_wait p1 = ((arrivals, cx, pick), p2) \<and>
           transport_Send (MsgNotification (NewJSONRPCNotification NotificationInitialized
                                              (NewInitializedNotification proto))) p2 = (None, p') \<and>
           c_reqID2respChan c' =
             c_reqID2respChan (c_remove_slot (fst (callServer_register c))
                                 (fold c_deliver arrivals (snd (callServer_register c))))"
proof -
  from assms obtain resp c1 p1' where
    cs: "callServer_with Lock_held lib Initialize (NewInitializeRequest proto info caps) c p =
           Returns (Inr resp, c1, p1')"
    by (auto simp: initialization_with_def split: outcome.splits sum.splits prod.splits)
  from call_locked[OF cs] obtain p1 arrivals cx pick where
    a: "transport_Send (MsgRequest (NewJSONRPCRequest (IDString (fst (callServer_register c)))
                                         Initialize (NewInitializeRequest proto info caps))) p = (None, p1)"
    and b: "next_wait p1 = ((arrivals, cx, pick), p1')"
    and c1: "c1 = c_remove_slot (fst (callServer_register c))
                  (fold c_deliver arrivals (snd (callServer_register c)))"
    by blast
  from assms cs obtain
    n: "Client_sendMsgWithNotification lib NotificationInitialized (NewInitializedNotification proto) p1' = (None, p')"
    and cc: "c_reqID2respChan c' = c_reqID2respChan c1"
    by (auto simp: initialization_with_def split: sum.splits if_splits prod.splits option.splits)
  show ?thesis using a b notify_send[OF n] cc c1 by blast
qed

lemma again_success:
  assumes "againInitialization lib proto c p = Returns (None, c', p')"
  shows "\<not> initializationMu c \<and>
         (\<exists>p1 p2 arrivals cx pick.
           transport_Send (MsgRequest (NewJSONRPCRequest (IDString (FormatInt (AddInt64 (c_requestID c) 1)))
                                         Initialize
                                         (NewInitializeRequest proto (clientInfo c) (clientCapabilities c)))) p
             = (None, p1) \<and>
           next_wait p1 = ((arrivals, cx, pick), p2) \<and>
           transport_Send (MsgNotification (NewJSONRPCNotification NotificationInitialized
                                              (NewInitializedNotification proto))) p2 = (None, p') \<and>
           c_reqID2respChan c' =
             AList.delete (FormatInt (AddInt64 (c_requestID c) 1))
               (c_reqID2respChan
                  (fold c_deliver arrivals
                     (c\<lparr>c_ready := False, initializationMu := True,
                        c_requestID := AddInt64 (c_requestID c) 1,
                        c_reqID2respChan :=
                          AList.update (FormatInt (AddInt64 (c_requestID c) 1)) (make_chan 1)
                            (c_reqID2respChan c)\<rparr>))))"
proof -
  let ?c2 = "c\<lparr>c_ready := False, initializationMu := True\<rparr>"
  have mu: "\<not> initializationMu c" using assms by (auto simp: againInitialization_def Let_def split: if_splits)
  from assms mu obtain result c3 where
    i: "initialization_with Lock_held lib proto (clientInfo ?c2) (clientCapabilities ?c2) ?c2 p =
          Returns (Inr result, c3, p')"
    and cc: "c_reqID2respChan c' = c_reqID2respChan c3"
    by (auto simp: againInitialization_def Let_def split: outcome.splits sum.splits prod.splits)
  have reg: "callServer_register ?c2 =
       (FormatInt (AddInt64 (c_requestID c) 1),
        c\<lparr>c_ready := False, initializationMu := True,
          c_requestID := AddInt64 (c_requestID c) 1,
          c_reqID2respChan :=
            AList.update (FormatInt (AddInt64 (c_requestID c) 1)) (make_chan 1) (c_reqID2respChan c)\<rparr>)"
    by (simp add: callServer_register_def Let_def)
  from init_locked[OF i] show ?thesis using mu cc
    unfolding reg by (simp add: c_remove_slot_def) 
qed

lemma c_deliver_other_fields:
  "c_requestID (c_deliver r c) = c_requestID c"
  by (auto simp: c_deliver_def Client_receiveResponse_def split: option.splits)

lemma c_deliver_slot_other:
  "fmt_Sprint (resp_ID r) \<noteq> rid \<Longrightarrow>
   map_of (c_reqID2respChan (c_deliver r c)) rid = map_of (c_reqID2respChan c) rid"
  by (auto simp: c_deliver_def Client_receiveResponse_def update_conv' split: option.splits)

lemma fold_c_deliver_slot_other:
  "\<forall>r\<in>set rs. fmt_Sprint (resp_ID r) \<noteq> rid \<Longrightarrow>
   map_of (c_reqID2respChan (fold c_deliver rs c)) rid = map_of (c_reqID2respChan c) rid"
  by (induction rs arbitrary: c) (simp_all add: c_deliver_slot_other)

text \<open>The recursive equation of the source.\<close>

lemma send_with_cong:
  "(\<And>p'. f c p' = g c p') \<Longrightarrow>
   sendMsgWithRequest_with f lib rid method params c p =
   sendMsgWithRequest_with g lib rid method params c p"
  by (simp add: sendMsgWithRequest_with_def Let_def split: sum.splits prod.splits option.splits)

lemma call_with_cong:
  assumes "\<And>p'. f (snd (callServer_register c)) p' = g (snd (callServer_register c)) p'"
  shows "callServer_with f lib method params c p = callServer_with g lib method params c p"
proof -
  obtain rid c1 where reg: "callServer_register c = (rid, c1)" by (cases "callServer_register c")
  have "\<And>m. sendMsgWithRequest_with f lib (IDString rid) m params c1 p =
        sendMsgWithRequest_with g lib (IDString rid) m params c1 p"
    using assms reg by (intro send_with_cong) simp
  then show ?thesis by (simp add: callServer_with_def reg)
qed

lemma init_with_cong:
  assumes "\<And>p'. f (snd (callServer_register c)) p' = g (snd (callServer_register c)) p'"
  shows "initialization_with f lib proto info caps c p = initialization_with g lib proto info caps c p"
  using call_with_cong[where f = f and g = g and c = c, OF assms]
  by (simp add: initialization_with_def)

lemma againInitialization_held:
  "initializationMu c \<Longrightarrow> againInitialization lib proto c p = Blocks"
  by (simp add: againInitialization_def)

lemma againInitialization_unfold:
  "againInitialization lib proto c p =
     (let c1 = c\<lparr>c_ready := False\<rparr> in
      if initializationMu c1 then Blocks
      else
        (let c2 = c1\<lparr>initializationMu := True\<rparr> in
         if c_ready c2 then Returns (None, c2\<lparr>initializationMu := False\<rparr>, p)
         else
           (case initialization lib proto (clientInfo c2) (clientCapabilities c2) c2 p of
              Blocks \<Rightarrow> Blocks
            | Panics \<Rightarrow> Panics
            | Returns (Inl err, c3, p3) \<Rightarrow> Returns (Some err, c3\<lparr>initializationMu := False\<rparr>, p3)
            | Returns (Inr result, c3, p3) \<Rightarrow>
                Returns (None, c3\<lparr>c_ready := True, initializationMu := False\<rparr>, p3))))"
proof -
  let ?c2 = "c\<lparr>c_ready := False, initializationMu := True\<rparr>"
  have held: "initializationMu (snd (callServer_register ?c2))"
    by (simp add: callServer_register_def Let_def)
  have "initialization_with (againInitialization lib proto) lib proto (clientInfo ?c2)
          (clientCapabilities ?c2) ?c2 p =
        initialization_with Lock_held lib proto (clientInfo ?c2) (clientCapabilities ?c2) ?c2 p"
    by (rule init_with_cong) (simp add: againInitialization_held[OF held] Lock_held_def)
  then show ?thesis by (simp add: againInitialization_def initialization_def Let_def)
qed

lemma next_wait_mem:
  assumes "next_wait p = ((arr, cx, pick), p')"
  shows "arr = [] \<or> (arr, cx, pick) \<in> set (waits p)"
  using assms by (auto simp: next_wait_def split: list.splits)

lemma make_chan_buf: "buf (make_chan n) = []"
  by (simp add: make_chan_def)

lemma AddInt64_small: "AddInt64 0 1 = 1" "AddInt64 1 1 = 2"
  by (simp_all add: AddInt64_def)

lemma FormatInt_small: "FormatInt 1 = ''1''" "FormatInt 2 = ''2''"
  by (simp_all add: FormatInt_def digits_of.simps)

lemma demo_register: "callServer_register demo_client = (''1'', registered_client)"
  by (simp add: callServer_register_def demo_client_def registered_client_def FormatInt_small
        AddInt64_small Let_def)

lemma demo_refused:
  "transport_Send (MsgRequest (NewJSONRPCRequest (IDString ''1'') ToolsList None)) closing_peer =
     (Some (Sentinel ErrSessionClosed), refused_peer)"
  by (simp add: transport_Send_def closing_peer_def refused_peer_def tools_list_call_def)

lemma demo_again:
  "againInitialization demo_lib demo_proto registered_client refused_peer =
     Returns (None, reinit_client, reinit_peer)"
  by (simp add: againInitialization_def initialization_with_def callServer_with_def
        sendMsgWithRequest_with_def callServer_register_def Client_sendMsgWithNotification_def
        transport_Send_def next_wait_def c_deliver_def Client_receiveResponse_def try_send_def
        c_remove_slot_def response_result_def JSONUnmarshal_def bytes_text_def
        registered_client_def refused_peer_def reinit_client_def reinit_peer_def
        demo_lib_def demo_proto_def init_response_def make_chan_def FormatInt_small AddInt64_small Let_def
        NewJSONRPCRequest_def NewJSONRPCNotification_def Initialize_def Ping_def)

text \<open>
  C10. In \<open>callServer\<close>, when the transport answers the send of the request with
  \<open>ErrSessionClosed\<close> and the re-initialization that \<open>sendMsgWithRequest\<close> then runs
  succeeds, \<open>sendMsgWithRequest\<close> returns nil. The messages handed to the transport are
  then the original request (the refused attempt), the \<open>initialize\<close> request of the
  re-initialization under the next request id, and the \<open>initialized\<close> notification; the
  original request is not among the later two, so it is never sent again. The reply slot
  registered for it is still there and empty; unless a response with its id arrives all
  the same, \<open>callServer\<close> leaves its \<open>select\<close> only through the context: it returns
  the context's error when the context is done, and stays suspended otherwise.
\<close>

theorem session_closed_request_not_resent:
  assumes ready: "c_ready c \<or> method = Initialize \<or> method = Ping"
      and reg: "callServer_register c = (rid, c1)"
      and marshal: "Marshal_Request lib (NewJSONRPCRequest (IDString rid) method params) = Inr message"
      and send: "transport_Send (MsgRequest (NewJSONRPCRequest (IDString rid) method params)) p = (Some err, p1)"
      and closed: "errors_Is err ErrSessionClosed"
      and again: "againInitialization lib proto c1 p1 = Returns (None, c2, p2)"
  shows "Client_sendMsgWithRequest lib proto (IDString rid) method params c1 p = Returns (None, c2, p2) \<and>
         sent p2 =
           sent p @
           [MsgRequest (NewJSONRPCRequest (IDString rid) method params),
            MsgRequest (NewJSONRPCRequest (IDString (FormatInt (AddInt64 (c_requestID c1) 1))) Initialize
                          (NewInitializeRequest proto (clientInfo c1) (clientCapabilities c1))),
            MsgNotification (NewJSONRPCNotification NotificationInitialized
                               (NewInitializedNotification proto))] \<and>
         NewJSONRPCRequest (IDString rid) method params \<noteq>
           NewJSONRPCRequest (IDString (FormatInt (AddInt64 (c_requestID c1) 1))) Initialize
             (NewInitializeRequest proto (clientInfo c1) (clientCapabilities c1)) \<and>
         ((\<forall>w\<in>set (waits p). \<forall>r\<in>set (fst w). fmt_Sprint (resp_ID r) \<noteq> rid) \<longrightarrow>
            map_of (c_reqID2respChan c2) rid = Some (make_chan 1) \<and>
            (case fst (snd (fst (next_wait p2))) of
               None \<Rightarrow> callServer lib proto method params c p = Blocks
             | Some e \<Rightarrow>
                 (\<exists>c3 p3. callServer lib proto method params c p = Returns (Inl e, c3, p3) \<and>
                          map_of (c_reqID2respChan c3) rid = None)))"
proof -
  let ?req = "NewJSONRPCRequest (IDString rid) method params"
  let ?rid' = "FormatInt (AddInt64 (c_requestID c1) 1)"
  let ?initreq = "NewJSONRPCRequest (IDString ?rid') Initialize
                    (NewInitializeRequest proto (clientInfo c1) (clientCapabilities c1))"
  let ?notif = "NewJSONRPCNotification NotificationInitialized (NewInitializedNotification proto)"
  have rid: "rid = FormatInt (c_requestID c1)"
    and c1_slot: "map_of (c_reqID2respChan c1) rid = Some (make_chan 1)"
    using reg by (auto simp: callServer_register_def Let_def update_conv')
  have ne: "?rid' \<noteq> rid" unfolding rid by (rule next_id_differs)
  have S: "Client_sendMsgWithRequest lib proto (IDString rid) method params c1 p = Returns (None, c2, p2)"
    using marshal send closed again
    by (simp add: Client_sendMsgWithRequest_def sendMsgWithRequest_with_def Let_def)
  from again_success[OF again] obtain q1 q2 arr1 cx1 pick1 where
    a1: "transport_Send (MsgRequest ?initreq) p1 = (None, q1)"
    and a2: "next_wait q1 = ((arr1, cx1, pick1), q2)"
    and a3: "transport_Send (MsgNotification ?notif) q2 = (None, p2)"
    and a4: "c_reqID2respChan c2 =
             AList.delete ?rid'
               (c_reqID2respChan
                  (fold c_deliver arr1
                     (c1\<lparr>c_ready := False, initializationMu := True,
                        c_requestID := AddInt64 (c_requestID c1) 1,
                        c_reqID2respChan :=
                          AList.update ?rid' (make_chan 1) (c_reqID2respChan c1)\<rparr>)))"
    by blast
  have L: "sent p2 = sent p @ [MsgRequest ?req, MsgRequest ?initreq, MsgNotification ?notif]"
    using transport_Send_log[OF send] transport_Send_log[OF a1] next_wait_log[OF a2]
      transport_Send_log[OF a3] by simp
  have W: "waits q1 = waits p" "waits p2 = tl (waits p)"
    using transport_Send_log[OF send] transport_Send_log[OF a1] next_wait_log[OF a2]
      transport_Send_log[OF a3] by simp_all
  have D: "?req \<noteq> ?initreq"
  proof
    assume "?req = ?initreq"
    then have "req_ID ?req = req_ID ?initreq" by simp
    then show False using ne by (simp add: NewJSONRPCRequest_def)
  qed
  have T: "map_of (c_reqID2respChan c2) rid = Some (make_chan 1) \<and>
            (case fst (snd (fst (next_wait p2))) of
               None \<Rightarrow> callServer lib proto method params c p = Blocks
             | Some e \<Rightarrow>
                 (\<exists>c3 p3. callServer lib proto method params c p = Returns (Inl e, c3, p3) \<and>
                          map_of (c_reqID2respChan c3) rid = None))"
    if quiet: "\<forall>w\<in>set (waits p). \<forall>r\<in>set (fst w). fmt_Sprint (resp_ID r) \<noteq> rid"
  proof -
    have q_arr1: "\<forall>r\<in>set arr1. fmt_Sprint (resp_ID r) \<noteq> rid"
      using next_wait_mem[OF a2] quiet W(1) by fastforce
    have slot2: "map_of (c_reqID2respChan c2) rid = Some (make_chan 1)"
      unfolding a4 using ne c1_slot
      by (simp add: delete_conv' fold_c_deliver_slot_other[OF q_arr1] update_conv')
    obtain arr2 cx2 pick2 p3 where w2: "next_wait p2 = ((arr2, cx2, pick2), p3)"
      by (metis prod.exhaust)
    have "arr2 = [] \<or> (arr2, cx2, pick2) \<in> set (tl (waits p))"
      using next_wait_mem[OF w2] W(2) by simp
    then have q_arr2: "\<forall>r\<in>set arr2. fmt_Sprint (resp_ID r) \<noteq> rid"
      using quiet by (cases "waits p") fastforce+
    let ?c3 = "fold c_deliver arr2 c2"
    have slot3: "map_of (c_reqID2respChan ?c3) rid = Some (make_chan 1)"
      using fold_c_deliver_slot_other[OF q_arr2] slot2 by simp
    have nr: "(\<not> c_ready c \<and> (method \<noteq> Initialize \<and> method \<noteq> Ping)) = False" using ready by blast
    have S': "sendMsgWithRequest_with (againInitialization lib proto) lib (IDString rid) method params c1 p
                = Returns (None, c2, p2)"
      using S by (simp add: Client_sendMsgWithRequest_def)
    have call: "callServer lib proto method params c p =
            (case cx2 of
               Some e \<Rightarrow> Returns (Inl e, c_remove_slot rid ?c3, p3)
             | None \<Rightarrow> Blocks)"
      unfolding callServer_def callServer_with_def nr
      using reg S' w2 slot3
      by (simp add: Let_def make_chan_buf split: option.splits)
    have gone: "map_of (c_reqID2respChan (c_remove_slot rid ?c3)) rid = None"
      by (simp add: c_remove_slot_def delete_conv')
    show ?thesis using slot2 call gone w2 by (auto split: option.splits)
  qed
  show ?thesis using S L D T by blast
qed

theorem session_closed_request_not_resent_witness:
  "(c_ready demo_client \<or> ToolsList = Initialize \<or> ToolsList = Ping) \<and>
   callServer_register demo_client = (''1'', registered_client) \<and>
   Marshal_Request demo_lib (NewJSONRPCRequest (IDString ''1'') ToolsList None) = Inr ''request'' \<and>
   transport_Send (MsgRequest (NewJSONRPCRequest (IDString ''1'') ToolsList None)) closing_peer =
     (Some (Sentinel ErrSessionClosed), refused_peer) \<and>
   errors_Is (Sentinel ErrSessionClosed) ErrSessionClosed \<and>
   againInitialization demo_lib demo_proto registered_client refused_peer =
     Returns (None, reinit_client, reinit_peer) \<and>
   Client_sendMsgWithRequest demo_lib demo_proto (IDString ''1'') ToolsList None registered_client
       closing_peer = Returns (None, reinit_client, reinit_peer) \<and>
   sent reinit_peer =
     sent closing_peer @
     [MsgRequest (NewJSONRPCRequest (IDString ''1'') ToolsList None),
      MsgRequest (NewJSONRPCRequest (IDString (FormatInt (AddInt64 (c_requestID registered_client) 1)))
                    Initialize
                    (NewInitializeRequest demo_proto (clientInfo registered_client)
                       (clientCapabilities registered_client))),
      MsgNotification (NewJSONRPCNotification NotificationInitialized
                         (NewInitializedNotification demo_proto))] \<and>
   (\<exists>c3 p3. callServer demo_lib demo_proto ToolsList None demo_client closing_peer =
              Returns (Inl (Sentinel ContextDeadlineExceeded), c3, p3) \<and>
            map_of (c_reqID2respChan c3) ''1'' = None)"
proof -
  have h1: "c_ready demo_client \<or> ToolsList = Initialize \<or> ToolsList = Ping"
    by (simp add: demo_client_def)
  have h3: "Marshal_Request demo_lib (NewJSONRPCRequest (IDString ''1'') ToolsList None) = Inr ''request''"
    by (simp add: demo_lib_def)
  have h5: "errors_Is (Sentinel ErrSessionClosed) ErrSessionClosed" by simp
  have quiet: "\<forall>w\<in>set (waits closing_peer). \<forall>r\<in>set (fst w). fmt_Sprint (resp_ID r) \<noteq> ''1''"
    by (simp add: closing_peer_def init_response_def)
  have cx: "fst (snd (fst (next_wait reinit_peer))) = Some (Sentinel ContextDeadlineExceeded)"
    by (simp add: next_wait_def reinit_peer_def)
  note t = session_closed_request_not_resent[OF h1 demo_register h3 demo_refused h5 demo_again]
  have a: "Client_sendMsgWithRequest demo_lib demo_proto (IDString ''1'') ToolsList None registered_client
       closing_peer = Returns (None, reinit_client, reinit_peer)"
    using t by blast
  have b: "sent reinit_peer =
     sent closing_peer @
     [MsgRequest (NewJSONRPCRequest (IDString ''1'') ToolsList None),
      MsgRequest (NewJSONRPCRequest (IDString (FormatInt (AddInt64 (c_requestID registered_client) 1)))
                    Initialize
                    (NewInitializeRequest demo_proto (clientInfo registered_client)
                       (clientCapabilities registered_client))),
      MsgNotification (NewJSONRPCNotification NotificationInitialized
                         (NewInitializedNotification demo_proto))]"
    using t by blast
  have c0: "case fst (snd (fst (next_wait reinit_peer))) of
               None \<Rightarrow> callServer demo_lib demo_proto ToolsList None demo_client closing_peer = Blocks
             | Some e \<Rightarrow>
                 (\<exists>c3 p3. callServer demo_lib demo_proto ToolsList None demo_client closing_peer =
                            Returns (Inl e, c3, p3) \<and>
                          map_of (c_reqID2respChan c3) ''1'' = None)"
    using t quiet by blast
  have c: "\<exists>c3 p3. callServer demo_lib demo_proto ToolsList None demo_client closing_peer =
              Returns (Inl (Sentinel ContextDeadlineExceeded), c3, p3) \<and>
            map_of (c_reqID2respChan c3) ''1'' = None"
    using c0 unfolding cx by simp
  show ?thesis using h1 demo_register h3 demo_refused h5 demo_again a b c by blast
qed

section \<open>Content decoding\<close>

lemma demo_content_elems:
  "elem_resource \<noteq> elem_text" "elem_video \<noteq> elem_text" "elem_video \<noteq> elem_resource"
  "body_resource_video \<noteq> body_resource_text"
  by (simp_all add: elem_resource_def elem_text_def elem_video_def body_resource_video_def
        body_resource_text_def)

text \<open>
  C9 at two inputs. On a content array whose first element decodes as an embedded resource
  only, \<open>UnmarshalJSON\<close> returns nil after that element: a following text element is not
  decoded (its slot stays nil), and a following element of no known type raises no
  "unknown content type" error.
\<close>

theorem UnmarshalJSON_stops_after_embedded_resource:
  "UnmarshalJSON demo_content_lib body_resource_text empty_result =
     (None, \<lparr>ctr_Content = [Some (EmbeddedResource ''file:///a''), None], ctr_IsError = False\<rparr>) \<and>
   UnmarshalJSON demo_content_lib body_resource_video empty_result =
     (None, \<lparr>ctr_Content = [Some (EmbeddedResource ''file:///a''), None], ctr_IsError = False\<rparr>) \<and>
   Unmarshal_TextContent demo_content_lib elem_text = Inr ''hi'' \<and>
   Unmarshal_TextContent demo_content_lib elem_video = Inl ''invalid content type'' \<and>
   Unmarshal_ImageContent demo_content_lib elem_video = Inl ''invalid content type'' \<and>
   Unmarshal_AudioContent demo_content_lib elem_video = Inl ''invalid content type'' \<and>
   Unmarshal_EmbeddedResource demo_content_lib elem_video = Inl ''invalid content type''"
  by (simp add: UnmarshalJSON_def JSONUnmarshal_def demo_content_lib_def demo_content_elems
        empty_result_def)

end
